theory Spec2Isabelle
  imports Main "HOL-Library.Word" "HOL-Library.AList"
begin

unbundle bit_operations_syntax

section \<open>The raw URI transformer (che-uri-transformer.js)\<close>

text \<open>
  \<open>UriParts\<close> of \<open>vs/base/common/uriIpc\<close>: a scheme and four optional components.
  A component that the JavaScript object does not carry (or carries as \<open>undefined\<close>)
  is \<open>None\<close>.
\<close>

record uri_parts =
  scheme :: string
  authority :: "string option"
  path :: "string option"
  query :: "string option"
  fragment :: "string option"

text \<open>
  The object returned by \<open>transformer(remoteAuthority)\<close>: three closures over
  \<open>remoteAuthority\<close>.  The object literals of the source mention only \<open>scheme\<close>,
  \<open>path\<close> (and \<open>authority\<close> for outgoing \<open>file\<close> URIs); every other component of the
  result is absent.
\<close>

record raw_uri_transformer =
  transformIncoming :: "uri_parts \<Rightarrow> uri_parts"
  transformOutgoing :: "uri_parts \<Rightarrow> uri_parts"
  transformOutgoingScheme :: "string \<Rightarrow> string"

definition transformer :: "string \<Rightarrow> raw_uri_transformer" where
  "transformer remoteAuthority =
     \<lparr> transformIncoming = (\<lambda>uri.
         if scheme uri = ''file'' then
           \<lparr> scheme = ''vscode-local'', authority = None, path = path uri,
             query = None, fragment = None \<rparr>
         else if scheme uri = ''vscode-remote'' then
           \<lparr> scheme = ''file'', authority = None, path = path uri,
             query = None, fragment = None \<rparr>
         else uri),
       transformOutgoing = (\<lambda>uri.
         if scheme uri = ''file'' then
           \<lparr> scheme = ''vscode-remote'', authority = Some remoteAuthority, path = path uri,
             query = None, fragment = None \<rparr>
         else if scheme uri = ''vscode-local'' then
           \<lparr> scheme = ''file'', authority = None, path = path uri,
             query = None, fragment = None \<rparr>
         else uri),
       transformOutgoingScheme = (\<lambda>s.
         if s = ''file'' then ''vscode-remote''
         else if s = ''vscode-local'' then ''file''
         else s) \<rparr>"

section \<open>The remote filesystem channel (remote-filesystem-channel.ts)\<close>

text \<open>
  Only the part of \<open>RemoteFileSystemChannel\<close> that owns state is embedded: the two
  maps \<open>fileWatchers\<close> and \<open>fileWatcherDisposables\<close>, the commands \<open>watch\<close> and
  \<open>unwatch\<close> of \<open>call\<close>, and the two hooks of the emitter that \<open>listen\<close> creates
  for the event \<open>filechange\<close>.  The other commands forward to the shared
  \<open>DiskFileSystemProvider\<close> and touch neither map.

  A \<open>DiskFileSystemProvider\<close> created by the \<open>filechange\<close> hook is a mutable object;
  it is given an identity (\<open>watcher_id\<close>) so that a disposable handed out by one
  instance does not act on a later instance stored under the same key.
\<close>

record watch_opts =
  recursive :: bool
  excludes :: "string list"





text \<open>
  The requests of \<open>call(ctx, command, arg)\<close>.  \<open>Watch sessionId watchId uri opts\<close> is
  \<open>command = 'watch'\<close> with \<open>arg = [sessionId, watchId, uri, opts]\<close>, \<open>Unwatch\<close>
  likewise; both identifiers are given as the strings that the template literal
  \<open>`${arg[0]}${arg[1]}`\<close> makes of them.  \<open>Other c\<close> is any command name \<open>c\<close> other
  than these two.
\<close>

datatype request =
    Watch string string uri_parts watch_opts
  | Unwatch string string
  | Other string








section \<open>Strings, bytes and the digest of the handshake\<close>

text \<open>
  A JavaScript string is a list of characters; the strings that matter here are HTTP
  header values, which Node decodes as latin1, so every character is a code unit below
  256.  A byte is a natural number below 256, a 32-bit word a natural number below
  \<open>2 ^ 32\<close>, with the wrap-around written out.
\<close>

type_synonym byte = nat

text \<open>\<open>String.prototype.trim\<close>: the white space and line terminators below 256.\<close>

definition js_whitespace :: "char \<Rightarrow> bool" where
  "js_whitespace c = ((of_char c :: nat) \<in> {9, 10, 11, 12, 13, 32, 160})"

definition trim :: "string \<Rightarrow> string" where
  "trim s = rev (dropWhile js_whitespace (rev (dropWhile js_whitespace s)))"

text \<open>\<open>hash.update(string)\<close> hashes the UTF-8 encoding of the string.\<close>

definition utf8 :: "string \<Rightarrow> byte list" where
  "utf8 s = concat (map (\<lambda>ch. let c = (of_char ch :: nat) in
      if c < 128 then [c] else [192 + c div 64, 128 + c mod 64]) s)"

text \<open>
  \<open>crypto.createHash('sha1')\<close>: SHA-1 as in FIPS 180-4.  The message schedule is kept
  most recent word first, so that \<open>W(t-3)\<close> is the element at index 2.
\<close>

definition rotl :: "nat \<Rightarrow> nat \<Rightarrow> nat" where
  "rotl n w = (w * 2 ^ n) mod 4294967296 + w div 2 ^ (32 - n)"

definition be64 :: "nat \<Rightarrow> byte list" where
  "be64 n = map (\<lambda>i. (n div 256 ^ (7 - i)) mod 256) [0..<8]"

definition sha1_pad :: "byte list \<Rightarrow> byte list" where
  "sha1_pad m =
     m @ [128] @ replicate ((119 - length m mod 64) mod 64) 0 @ be64 (8 * length m)"

fun be32 :: "byte list \<Rightarrow> nat list" where
  "be32 (a # b # c # d # rest) = (a * 16777216 + b * 65536 + c * 256 + d) # be32 rest"
| "be32 _ = []"

definition schedule :: "nat list \<Rightarrow> nat list" where
  "schedule w16 =
     rev (fold (\<lambda>t r. rotl 1 (r ! 2 XOR r ! 7 XOR r ! 13 XOR r ! 15) # r) [16..<80] (rev w16))"

type_synonym sha_state = "nat \<times> nat \<times> nat \<times> nat \<times> nat"

definition sha1_f :: "nat \<Rightarrow> nat \<Rightarrow> nat \<Rightarrow> nat \<Rightarrow> nat" where
  "sha1_f t b c d =
     (if t < 20 then (b AND c) OR ((b XOR 4294967295) AND d)
      else if t < 40 then b XOR c XOR d
      else if t < 60 then (b AND c) OR (b AND d) OR (c AND d)
      else b XOR c XOR d)"

definition sha1_k :: "nat \<Rightarrow> nat" where
  "sha1_k t = (if t < 20 then 0x5A827999 else if t < 40 then 0x6ED9EBA1
               else if t < 60 then 0x8F1BBCDC else 0xCA62C1D6)"

fun rounds :: "nat \<Rightarrow> nat list \<Rightarrow> sha_state \<Rightarrow> sha_state" where
  "rounds t [] s = s"
| "rounds t (w # ws) (a, b, c, d, e) =
     rounds (t + 1) ws
       ((rotl 5 a + sha1_f t b c d + e + sha1_k t + w) mod 4294967296, a, rotl 30 b, c, d)"

definition compress :: "sha_state \<Rightarrow> byte list \<Rightarrow> sha_state" where
  "compress h blk =
     (case h of (h0, h1, h2, h3, h4) \<Rightarrow>
        case rounds 0 (schedule (be32 blk)) h of (a, b, c, d, e) \<Rightarrow>
          ((h0 + a) mod 4294967296, (h1 + b) mod 4294967296, (h2 + c) mod 4294967296,
           (h3 + d) mod 4294967296, (h4 + e) mod 4294967296))"

fun blocks :: "sha_state \<Rightarrow> byte list \<Rightarrow> sha_state" where
  "blocks h m = (if m = [] then h else blocks (compress h (take 64 m)) (drop 64 m))"

declare blocks.simps [simp del]

definition word_bytes :: "nat \<Rightarrow> byte list" where
  "word_bytes w = [w div 16777216, (w div 65536) mod 256, (w div 256) mod 256, w mod 256]"

definition sha1 :: "byte list \<Rightarrow> byte list" where
  "sha1 m =
     (case blocks (0x67452301, 0xEFCDAB89, 0x98BADCFE, 0x10325476, 0xC3D2E1F0) (sha1_pad m)
      of (a, b, c, d, e) \<Rightarrow>
        word_bytes a @ word_bytes b @ word_bytes c @ word_bytes d @ word_bytes e)"

text \<open>\<open>digest('base64')\<close> and \<open>Buffer.toString('base64')\<close>: RFC 4648, with padding.\<close>

definition base64_alphabet :: string where
  "base64_alphabet = ''ABCDEFGHIJKLMNOPQRSTUVWXYZabcdefghijklmnopqrstuvwxyz0123456789+/''"

definition b64 :: "nat \<Rightarrow> char" where
  "b64 n = base64_alphabet ! (n mod 64)"

fun base64 :: "byte list \<Rightarrow> string" where
  "base64 [] = []"
| "base64 [a] = [b64 (a div 4), b64 (a mod 4 * 16), CHR ''='', CHR ''='']"
| "base64 [a, b] =
     [b64 (a div 4), b64 (a mod 4 * 16 + b div 16), b64 (b mod 16 * 4), CHR ''='']"
| "base64 (a # b # c # rest) =
     [b64 (a div 4), b64 (a mod 4 * 16 + b div 16),
      b64 (b mod 16 * 4 + c div 64), b64 (c mod 64)] @ base64 rest"

section \<open>The WebSocket upgrade (websocket-upgrade.ts)\<close>

text \<open>
  What \<open>HeaderParser.parse\<close> returns: an object from extension names to arrays of
  parameter objects, each from parameter names to arrays of values; a parameter
  offered without a value has the value \<open>true\<close>.  Objects are association lists in
  key order.
\<close>

datatype param_value = PTrue | PString string | PNumber int

type_synonym params = "(string \<times> param_value list) list"
type_synonym offers = "(string \<times> params list) list"

text \<open>
  The class \<open>HeaderParser\<close> (\<open>vs/che/node/ws/header-parser\<close>) is not part of the
  sources at hand; its two methods are parameters of the upgrade.
\<close>

record header_parser =
  parse :: "string option \<Rightarrow> offers"
  format :: "offers \<Rightarrow> string"

text \<open>
  The part of an \<open>IncomingMessage\<close> that the gateway reads: two headers, and the query
  of \<open>req.url\<close> as \<open>querystring.parse\<close> returns it (a key is absent, has one value, or
  has an array of values).
\<close>

datatype query_value = Single string | Multiple "string list"

record incoming_message =
  sec_websocket_key :: "string option"
  sec_websocket_extensions :: "string option"
  query_reconnectionToken :: "query_value option"
  query_reconnection :: "query_value option"
  query_skipWebSocketFrames :: "query_value option"

definition GUID :: string where
  "GUID = ''258EAFA5-E914-47DA-95CA-C5AB0DC85B11''"

definition DEFAULT_CLIENT_MAX_WINDOW_BITS :: int where
  "DEFAULT_CLIENT_MAX_WINDOW_BITS = 15"

definition CRLF :: string where
  "CRLF = [CHR 0x0D, CHR 0x0A]"

text \<open>\<open>Array.prototype.join\<close> on strings.\<close>

fun join :: "string \<Rightarrow> string list \<Rightarrow> string" where
  "join sep [] = []"
| "join sep [x] = x"
| "join sep (x # y # ys) = x @ sep @ join sep (y # ys)"

text \<open>
  \<open>key\<close> is the trimmed header, or \<open>false\<close> when the header is absent; in \<open>key + GUID\<close>
  the value \<open>false\<close> becomes the string \<open>false\<close>.
\<close>

definition key_plus_GUID :: "incoming_message \<Rightarrow> string" where
  "key_plus_GUID req =
     (case sec_websocket_key req of
        Some k \<Rightarrow> trim k @ GUID
      | None \<Rightarrow> ''false'' @ GUID)"

definition digest :: "incoming_message \<Rightarrow> string" where
  "digest req = base64 (sha1 (utf8 (key_plus_GUID req)))"

text \<open>The callback of \<open>offers['permessage-deflate'].map\<close>, which updates \<open>params\<close> in place.\<close>

definition normalize_params :: "params \<Rightarrow> params" where
  "normalize_params ps =
     (case map_of ps ''client_max_window_bits'' of
        Some (PTrue # vs) \<Rightarrow>
          AList.update ''client_max_window_bits'' [PNumber DEFAULT_CLIENT_MAX_WINDOW_BITS] ps
      | _ \<Rightarrow> ps)"

text \<open>The array \<open>headers\<close> at the moment it is written.\<close>

definition response_headers :: "header_parser \<Rightarrow> incoming_message \<Rightarrow> string list" where
  "response_headers hp req =
     [''HTTP/1.1 101 Switching Protocols'',
      ''Upgrade: websocket'',
      ''Connection: Upgrade'',
      ''Sec-WebSocket-Accept: '' @ digest req]
     @ (case map_of (parse hp (sec_websocket_extensions req)) ''permessage-deflate'' of
          Some pmd \<Rightarrow>
            [''Sec-WebSocket-Extensions: '' @
               format hp [(''permessage-deflate'', map normalize_params pmd)]]
        | None \<Rightarrow> [])"

section \<open>Objects of the session broker\<close>

text \<open>
  Sockets, protocols, extension hosts and child processes are mutable objects that
  several other objects refer to, so they live in stores and are referred to by
  identity.  A \<open>net.Socket\<close> and the \<open>NodeSocket\<close> and \<open>WebSocketNodeSocket\<close> that wrap
  it share one identity.  Calls that leave the gateway (to a socket, a protocol, a child
  process, an emitter) are recorded, in order, in \<open>trace\<close>.  Calls to the logger are
  not modelled.
\<close>

type_synonym socket_id = nat
type_synonym protocol_id = nat
type_synonym exthost_id = nat
type_synonym process_id = nat

datatype json =
    JString string
  | JNumber int
  | JBool bool
  | JNull
  | JObject "(string \<times> json) list"

datatype error = Error string

text \<open>\<open>new WebSocketNodeSocket(new NodeSocket(socket), permessageDeflate, null, permessageDeflate)\<close>\<close>

record web_socket_node_socket =
  ws_permessageDeflate :: bool
  ws_recordInflateBytes :: bool
  recordedInflateBytes :: "byte list"

text \<open>
  Modelled from the spec: the class \<open>PersistentProtocol\<close> (\<open>vs/base/parts/ipc/common/ipc.net\<close>)
  is missing from the sources at hand.  Of its state, the socket it currently rides on,
  the incoming bytes it has buffered and whether it was disposed are kept.
\<close>

record persistent_protocol =
  p_socket :: socket_id
  p_incoming :: "byte list"
  p_disposed :: bool

text \<open>\<open>VSCodeProtocolHolder\<close> (vscode-protocol.ts); its fields never change.\<close>

record protocol_holder =
  webSocketNodeSocket :: socket_id
  reconnection :: bool
  reconnectionToken :: string
  permessageDeflate :: bool
  skipWebSocketFrames :: bool
  persistentProtocol :: protocol_id
  reconnectionTokenHash :: string

text \<open>\<open>IRemoteExtensionHostStartParams\<close>, and the \<open>args\<close> of a request that are merged into it.\<close>

record start_params =
  language :: string
  port :: "int option"
  break :: "bool option"

record start_args =
  args_language :: "string option"
  args_port :: "int option"
  args_break :: "bool option"

datatype connection_type = Management | ExtensionHost | Tunnel

record connection_type_request =
  desiredConnectionType :: "connection_type option"
  commit :: "string option"
  args :: "start_args option"

text \<open>A control message after \<open>JSON.parse\<close>, by its \<open>type\<close>.\<close>

datatype control_message = Auth | ConnectionType connection_type_request | OtherControl

record management_details =
  md_protocolHolder :: protocol_holder
  md_disposed :: bool

record exthost_details =
  ed_protocolHolder :: protocol_holder
  remoteStartParams :: start_params
  extensionHost :: "exthost_id option"
  ed_disposed :: bool

record extension_host =
  uriTransformerPath :: string
  eh_socket :: socket_id
  eh_protocolHolder :: protocol_holder
  eh_disposed :: bool
  extensionHostProcess :: "process_id option"

text \<open>
  The two closures that \<open>ExtensionHost.start\<close> adds to the \<open>message\<close> event of the child
  process, with what they capture.
\<close>

datatype message_listener =
    OnConsoleMessageListener exthost_id
  | OnMessageReadyListener exthost_id process_id string

text \<open>
  A \<open>ChildProcess\<close>: the PID the operating system gave it, the listeners of its
  \<open>message\<close> event in the order they were added, the extension host whose \<open>exit\<close> and
  \<open>error\<close> handlers it carries, and whether \<open>kill\<close> was called on it.
\<close>

record child_process =
  pid :: nat
  message_listeners :: "message_listener list"
  cp_owner :: exthost_id
  killed :: bool

text \<open>\<open>--inspect=0.0.0.0:port\<close>, or \<open>--inspect-brk=0.0.0.0:port\<close> when the flag is set.\<close>

datatype exec_arg = Inspect bool int

datatype effect =
    SocketWrite socket_id string
  | SocketEnd socket_id "string option"
  | SocketPause socket_id
  | WsDrain socket_id
  | WsDispose socket_id
  | WsEnd socket_id
  | SendControl protocol_id json
  | SendDisconnect protocol_id
  | BeginAcceptReconnection protocol_id socket_id "byte list"
  | EndAcceptReconnection protocol_id
  | DisposeProtocol protocol_id
  | ClientConnected protocol_id
  | Fork process_id "string list" "exec_arg list"
  | Send process_id json socket_id
  | Kill process_id

record broker =
  managementConnections :: "string \<rightharpoonup> management_details"
  extensionHostConnections :: "string \<rightharpoonup> exthost_details"
  protocols :: "protocol_id \<Rightarrow> persistent_protocol"
  webSockets :: "socket_id \<Rightarrow> web_socket_node_socket"
  extensionHosts :: "exthost_id \<Rightarrow> extension_host"
  processes :: "process_id \<Rightarrow> child_process"
  controlMessageListeners :: "protocol_id \<rightharpoonup> protocol_holder \<times> socket_id"
  next_protocol :: protocol_id
  next_exthost :: exthost_id
  next_process :: process_id
  trace :: "effect list"

text \<open>
  What the gateway takes from its surroundings: the commit of the product, the path of
  the URI transformer, the port that \<open>findFreePort\<close> finds and the PID of the process
  that \<open>fork\<close> starts.
\<close>

record environment =
  productCommit :: "string option"
  env_uriTransformerPath :: string
  findFreePort :: int
  fork_pid :: nat

definition emit :: "effect \<Rightarrow> broker \<Rightarrow> broker" where
  "emit e st = st\<lparr> trace := trace st @ [e] \<rparr>"

subsection \<open>PersistentProtocol\<close>

text \<open>
  Modelled from the spec: \<open>sendControl\<close> and \<open>sendDisconnect\<close> are side effects on the
  protocol; \<open>readEntireBuffer\<close> drains all currently buffered incoming bytes;
  \<open>beginAcceptReconnection\<close> swaps the socket and feeds the residual bytes as if received
  on the new socket; \<open>endAcceptReconnection\<close> replays the unacknowledged outgoing bytes.
\<close>

definition getSocket :: "broker \<Rightarrow> protocol_id \<Rightarrow> socket_id" where
  "getSocket st p = p_socket (protocols st p)"

definition sendControl :: "protocol_id \<Rightarrow> json \<Rightarrow> broker \<Rightarrow> broker" where
  "sendControl p msg st = emit (SendControl p msg) st"

definition sendDisconnect :: "protocol_id \<Rightarrow> broker \<Rightarrow> broker" where
  "sendDisconnect p st = emit (SendDisconnect p) st"

definition readEntireBuffer :: "protocol_id \<Rightarrow> broker \<Rightarrow> byte list \<times> broker" where
  "readEntireBuffer p st =
     (p_incoming (protocols st p),
      st\<lparr> protocols := (protocols st)(p := (protocols st p)\<lparr> p_incoming := [] \<rparr>) \<rparr>)"

definition beginAcceptReconnection ::
  "protocol_id \<Rightarrow> socket_id \<Rightarrow> byte list \<Rightarrow> broker \<Rightarrow> broker" where
  "beginAcceptReconnection p socket residual st =
     emit (BeginAcceptReconnection p socket residual)
       (st\<lparr> protocols := (protocols st)
              (p := (protocols st p)\<lparr> p_socket := socket,
                                       p_incoming := p_incoming (protocols st p) @ residual \<rparr>) \<rparr>)"

definition endAcceptReconnection :: "protocol_id \<Rightarrow> broker \<Rightarrow> broker" where
  "endAcceptReconnection p st = emit (EndAcceptReconnection p) st"

definition dispose_protocol :: "protocol_id \<Rightarrow> broker \<Rightarrow> broker" where
  "dispose_protocol p st =
     emit (DisposeProtocol p)
       (st\<lparr> protocols := (protocols st)(p := (protocols st p)\<lparr> p_disposed := True \<rparr>) \<rparr>)"

subsection \<open>VSCodeProtocolHolder (vscode-protocol.ts)\<close>

text \<open>
  The constructor makes a new \<open>PersistentProtocol\<close> on the socket.  A JSON value stands
  for the buffer \<open>VSBuffer.fromString(JSON.stringify(request))\<close>.
\<close>

definition new_VSCodeProtocolHolder ::
  "socket_id \<Rightarrow> bool \<Rightarrow> string \<Rightarrow> bool \<Rightarrow> bool \<Rightarrow> broker \<Rightarrow> protocol_holder \<times> broker" where
  "new_VSCodeProtocolHolder ws reconnecting token deflate skipFrames st =
     (\<lparr> webSocketNodeSocket = ws, reconnection = reconnecting, reconnectionToken = token,
        permessageDeflate = deflate, skipWebSocketFrames = skipFrames,
        persistentProtocol = next_protocol st, reconnectionTokenHash = take 8 token \<rparr>,
      st\<lparr> protocols := (protocols st)
             (next_protocol st := \<lparr> p_socket = ws, p_incoming = [], p_disposed = False \<rparr>),
          next_protocol := Suc (next_protocol st) \<rparr>)"

definition sendControlMessage :: "protocol_holder \<Rightarrow> json \<Rightarrow> broker \<Rightarrow> broker" where
  "sendControlMessage holder request st = sendControl (persistentProtocol holder) request st"

definition isReconnecting :: "protocol_holder \<Rightarrow> bool" where
  "isReconnecting holder = (reconnection holder = True)"

definition okMessage :: json where
  "okMessage = JObject [(''type'', JString ''ok'')]"

subsection \<open>WebsocketUpgrade.upgradeSocket (websocket-upgrade.ts)\<close>

definition upgradeSocket ::
  "header_parser \<Rightarrow> incoming_message \<Rightarrow> socket_id \<Rightarrow> broker \<Rightarrow> (socket_id \<times> bool) \<times> broker" where
  "upgradeSocket hp req socket st =
     (let st1 = emit (SocketWrite socket (join CRLF (response_headers hp req @ [CRLF]))) st;
          deflate = (map_of (parse hp (sec_websocket_extensions req)) ''permessage-deflate'' \<noteq> None);
          st2 = st1\<lparr> webSockets := (webSockets st1)
                  (socket := \<lparr> ws_permessageDeflate = deflate, ws_recordInflateBytes = deflate,
                               recordedInflateBytes = [] \<rparr>) \<rparr>
      in ((socket, deflate), st2))"

subsection \<open>ExtensionHost (extension-host.ts)\<close>

text \<open>
  \<open>if (debugPort)\<close> holds for a number other than zero; \<open>truthy_port\<close> returns that
  number.
\<close>

definition truthy_port :: "int option \<Rightarrow> int option" where
  "truthy_port debugPort =
     (case debugPort of Some n \<Rightarrow> if n \<noteq> 0 then Some n else None | None \<Rightarrow> None)"

definition connect ::
  "exthost_id \<Rightarrow> protocol_holder \<Rightarrow> int option \<Rightarrow> broker \<Rightarrow> string \<times> broker" where
  "connect this protocolHolder debugPort st =
     (let st1 = (case truthy_port debugPort of
                   Some n \<Rightarrow> sendControlMessage protocolHolder (JObject [(''debugPort'', JNumber n)]) st
                 | None \<Rightarrow> sendControlMessage protocolHolder (JObject []) st);
          (buffer, st2) =
             readEntireBuffer (persistentProtocol (eh_protocolHolder (extensionHosts st1 this))) st1;
          initialDataChunk = base64 buffer;
          st3 = dispose_protocol (persistentProtocol protocolHolder) st2;
          st4 = emit (SocketPause (eh_socket (extensionHosts st3 this))) st3
      in (initialDataChunk, st4))"

definition sendExthostIpcSocket ::
  "exthost_id \<Rightarrow> socket_id \<Rightarrow> socket_id \<Rightarrow> process_id \<Rightarrow> string \<Rightarrow> bool \<Rightarrow> broker \<Rightarrow> broker" where
  "sendExthostIpcSocket this ws socket extensionHostProcess' initialDataChunk deflate st =
     (let st1 = emit (WsDrain ws) st;
          inflateBytes = base64 (recordedInflateBytes (webSockets st1 ws));
          extHostSocketMessage = JObject
            [(''type'', JString ''VSCODE_EXTHOST_IPC_SOCKET''),
             (''initialDataChunk'', JString initialDataChunk),
             (''skipWebSocketFrames'',
                JBool (skipWebSocketFrames (eh_protocolHolder (extensionHosts st1 this)))),
             (''permessageDeflate'', JBool deflate),
             (''inflateBytes'', JString inflateBytes)]
      in emit (Send extensionHostProcess' extHostSocketMessage socket) st1)"

text \<open>
  \<open>reconnect\<close> is \<open>async\<close>: its \<open>throw\<close> rejects the promise it returns, which is the
  result \<open>Inl\<close>.
\<close>

definition reconnect ::
  "exthost_id \<Rightarrow> protocol_holder \<Rightarrow> socket_id \<Rightarrow> int option \<Rightarrow> broker \<Rightarrow> error + broker" where
  "reconnect this protocolHolder socket debugPort st =
     (case extensionHostProcess (extensionHosts st this) of
        None \<Rightarrow> Inl (Error ''Extension host process is not defined'')
      | Some process \<Rightarrow>
          (let (initialDataChunk, st1) = connect this protocolHolder debugPort st;
               st2 = st1\<lparr> extensionHosts := (extensionHosts st1)
                       (this := (extensionHosts st1 this)\<lparr> eh_protocolHolder := protocolHolder \<rparr>) \<rparr>
           in Inr (sendExthostIpcSocket this (webSocketNodeSocket protocolHolder) socket process
                     initialDataChunk (permessageDeflate protocolHolder) st2)))"

text \<open>
  \<open>start\<close>: after \<open>connect\<close>, the worker is forked and becomes the process of this
  extension host; its \<open>message\<close> event gets the console listener and the listener that
  waits for \<open>VSCODE_EXTHOST_IPC_READY\<close>, in this order, and its \<open>exit\<close> and \<open>error\<close>
  events dispose this extension host.  The environment block passed to \<open>fork\<close> is not
  modelled.
\<close>

definition execArgv :: "start_params \<Rightarrow> exec_arg list" where
  "execArgv startParams =
     (case truthy_port (port startParams) of
        Some n \<Rightarrow> [Inspect (break startParams = Some True) n]
      | None \<Rightarrow> [])"

definition start :: "environment \<Rightarrow> exthost_id \<Rightarrow> start_params \<Rightarrow> broker \<Rightarrow> broker" where
  "start env this startParams st =
     (let (initialDataChunk, st1) =
             connect this (eh_protocolHolder (extensionHosts st this)) (port startParams) st;
          process = next_process st1;
          st2 = emit (Fork process
                        [''--type=extensionHost'',
                         ''--uriTransformerPath='' @ uriTransformerPath (extensionHosts st1 this)]
                        (execArgv startParams))
                  (st1\<lparr> processes := (processes st1)
                          (process := \<lparr> pid = fork_pid env, message_listeners = [],
                                        cp_owner = this, killed = False \<rparr>),
                        next_process := Suc process \<rparr>);
          st3 = st2\<lparr> extensionHosts := (extensionHosts st2)
                  (this := (extensionHosts st2 this)\<lparr> extensionHostProcess := Some process \<rparr>) \<rparr>
      in st3\<lparr> processes := (processes st3)
               (process := (processes st3 process)
                  \<lparr> message_listeners :=
                      [OnConsoleMessageListener this,
                       OnMessageReadyListener this process initialDataChunk] \<rparr>) \<rparr>)"

text \<open>\<open>message && message.type === t\<close>\<close>

definition has_type :: "json \<Rightarrow> string \<Rightarrow> bool" where
  "has_type message t =
     (case message of JObject props \<Rightarrow> map_of props ''type'' = Some (JString t) | _ \<Rightarrow> False)"

text \<open>
  One listener receiving one message.  The console listener only logs.  The ready
  listener, on \<open>VSCODE_EXTHOST_IPC_READY\<close>, removes itself and sends the socket.
\<close>

definition run_listener :: "message_listener \<Rightarrow> json \<Rightarrow> broker \<Rightarrow> broker" where
  "run_listener l message st =
     (case l of
        OnConsoleMessageListener this \<Rightarrow> st
      | OnMessageReadyListener this process initialDataChunk \<Rightarrow>
          if has_type message ''VSCODE_EXTHOST_IPC_READY'' then
            (let st1 = st\<lparr> processes := (processes st)
                         (process := (processes st process)
                            \<lparr> message_listeners := remove1 l (message_listeners (processes st process)) \<rparr>) \<rparr>
             in sendExthostIpcSocket this
                  (webSocketNodeSocket (eh_protocolHolder (extensionHosts st1 this)))
                  (eh_socket (extensionHosts st1 this)) process initialDataChunk
                  (permessageDeflate (eh_protocolHolder (extensionHosts st1 this))) st1)
          else st)"

text \<open>
  The child process emits \<open>message\<close>: the listeners registered at that moment are called
  in the order they were added.
\<close>

definition on_message :: "process_id \<Rightarrow> json \<Rightarrow> broker \<Rightarrow> broker" where
  "on_message process message st =
     fold (\<lambda>l. run_listener l message) (message_listeners (processes st process)) st"

fun on_messages :: "process_id \<Rightarrow> json list \<Rightarrow> broker \<Rightarrow> broker" where
  "on_messages process [] st = st"
| "on_messages process (m # ms) st = on_messages process ms (on_message process m st)"

definition dispose_exthost :: "exthost_id \<Rightarrow> broker \<Rightarrow> broker" where
  "dispose_exthost this st =
     (if eh_disposed (extensionHosts st this) then st
      else
        (let st1 = st\<lparr> extensionHosts := (extensionHosts st)
                     (this := (extensionHosts st this)\<lparr> eh_disposed := True \<rparr>) \<rparr>;
             st2 = emit (SocketEnd (eh_socket (extensionHosts st1 this)) None) st1
         in case extensionHostProcess (extensionHosts st2 this) of
              Some process \<Rightarrow>
                emit (Kill process)
                  (st2\<lparr> processes := (processes st2)
                          (process := (processes st2 process)\<lparr> killed := True \<rparr>) \<rparr>)
            | None \<Rightarrow> st2))"

text \<open>The child process emits \<open>exit\<close> or \<open>error\<close>.\<close>

definition on_exit :: "process_id \<Rightarrow> broker \<Rightarrow> broker" where
  "on_exit process st = dispose_exthost (cp_owner (processes st process)) st"

subsection \<open>ManagementReconnectionDetails and ExtensionHostReconnectionDetails (websocket-handler.ts)\<close>

text \<open>\<open>this\<close> is the stored entry; \<open>protocolHolder\<close> is the holder of the new connection.\<close>

definition management_reconnect :: "management_details \<Rightarrow> protocol_holder \<Rightarrow> broker \<Rightarrow> broker" where
  "management_reconnect this protocolHolder st =
     (let protocolToConnect = persistentProtocol protocolHolder;
          st1 = sendControlMessage protocolHolder okMessage st;
          (entireBuffer, st2) = readEntireBuffer protocolToConnect st1;
          st3 = beginAcceptReconnection (persistentProtocol (md_protocolHolder this))
                  (getSocket st2 protocolToConnect) entireBuffer st2;
          st4 = endAcceptReconnection (persistentProtocol (md_protocolHolder this)) st3
      in dispose_protocol protocolToConnect st4)"

text \<open>
  \<open>dispose\<close> of the management session stored under \<open>token\<close>.  The object is reachable
  only through the table, so the flag \<open>disposed\<close> is updated there.
\<close>

definition management_dispose :: "string \<Rightarrow> broker \<Rightarrow> broker" where
  "management_dispose token st =
     (case managementConnections st token of
        None \<Rightarrow> st
      | Some this \<Rightarrow>
          if md_disposed this then st
          else
            (let st1 = st\<lparr> managementConnections := (managementConnections st)
                         (token \<mapsto> this\<lparr> md_disposed := True \<rparr>) \<rparr>;
                 protocol = persistentProtocol (md_protocolHolder this);
                 socket = getSocket st1 protocol;
                 st2 = sendDisconnect protocol st1;
                 st3 = dispose_protocol protocol st2
             in emit (WsEnd socket) st3))"

text \<open>
  \<open>dispose\<close> of the extension-host session stored under \<open>token\<close>: it disposes the
  extension host, forgets it, and fires \<open>onDidClientDisconnectEmitter\<close>, whose listener
  (added by \<open>handleConnectionTypeRequest\<close>) deletes the entry.  The flag \<open>disposed\<close> is
  never set.
\<close>

definition exthost_details_dispose :: "string \<Rightarrow> broker \<Rightarrow> broker" where
  "exthost_details_dispose token st =
     (case extensionHostConnections st token of
        None \<Rightarrow> st
      | Some this \<Rightarrow>
          if ed_disposed this then st
          else
            (let st1 = (case extensionHost this of
                          Some eh \<Rightarrow> dispose_exthost eh st
                        | None \<Rightarrow> st)
             in st1\<lparr> extensionHostConnections := (extensionHostConnections st1)(token := None) \<rparr>))"

subsection \<open>CheWebsocketHandler (websocket-handler.ts)\<close>

definition handleAuthRequest :: "protocol_holder \<Rightarrow> broker \<Rightarrow> broker" where
  "handleAuthRequest protocolHolder st =
     sendControlMessage protocolHolder
       (JObject [(''type'', JString ''sign''), (''data'', JString [])]) st"

definition abortWebSocketConnection :: "protocol_holder \<Rightarrow> string \<Rightarrow> broker \<Rightarrow> broker" where
  "abortWebSocketConnection protocolHolder reason st =
     (let errorMessage = JObject [(''reason'', JString reason), (''type'', JString ''error'')];
          persistentProtocol' = persistentProtocol protocolHolder;
          st1 = sendControl persistentProtocol' errorMessage st;
          st2 = dispose_protocol persistentProtocol' st1;
          st3 = emit (WsDrain (getSocket st2 persistentProtocol')) st2
      in emit (WsDispose (getSocket st3 persistentProtocol')) st3)"

definition validateDebugPort :: "environment \<Rightarrow> start_params \<Rightarrow> start_params" where
  "validateDebugPort env remoteExtensionHostStartParams =
     (if port remoteExtensionHostStartParams = Some 0
      then remoteExtensionHostStartParams\<lparr> port := Some (findFreePort env) \<rparr>
      else remoteExtensionHostStartParams)"

text \<open>\<open>{ language: 'en', ...connectionTypeRequest.args }\<close>\<close>

definition merge_args :: "start_args option \<Rightarrow> start_params" where
  "merge_args a =
     (case a of
        None \<Rightarrow> \<lparr> language = ''en'', port = None, break = None \<rparr>
      | Some a' \<Rightarrow>
          \<lparr> language = (case args_language a' of Some l \<Rightarrow> l | None \<Rightarrow> ''en''),
            port = args_port a', break = args_break a' \<rparr>)"

text \<open>\<open>extensionHostConnectionDetails.remoteStartParams.port || 0\<close>\<close>

definition port_or_0 :: "int option \<Rightarrow> int option" where
  "port_or_0 p = (case truthy_port p of Some n \<Rightarrow> Some n | None \<Rightarrow> Some 0)"

text \<open>
  The fresh extension-host connection: the entry is stored, the debug port validated
  (the entry shares the parameter object, so it sees the port), the extension host
  made, stored in the entry and started.
\<close>

definition fresh_extension_host ::
  "environment \<Rightarrow> protocol_holder \<Rightarrow> socket_id \<Rightarrow> start_params \<Rightarrow> broker \<Rightarrow> broker" where
  "fresh_extension_host env protocolHolder socket remoteExtensionHostStartParams st =
     (let token = reconnectionToken protocolHolder;
          details = \<lparr> ed_protocolHolder = protocolHolder,
                      remoteStartParams = remoteExtensionHostStartParams,
                      extensionHost = None, ed_disposed = False \<rparr>;
          st1 = st\<lparr> extensionHostConnections := (extensionHostConnections st)(token \<mapsto> details) \<rparr>;
          startParams = validateDebugPort env remoteExtensionHostStartParams;
          st2 = st1\<lparr> extensionHostConnections := (extensionHostConnections st1)
                  (token \<mapsto> details\<lparr> remoteStartParams := startParams \<rparr>) \<rparr>;
          extensionHost' = next_exthost st2;
          st3 = st2\<lparr> extensionHosts := (extensionHosts st2)
                  (extensionHost' :=
                     \<lparr> uriTransformerPath = env_uriTransformerPath env, eh_socket = socket,
                       eh_protocolHolder = protocolHolder, eh_disposed = False,
                       extensionHostProcess = None \<rparr>),
                next_exthost := Suc extensionHost' \<rparr>;
          st4 = st3\<lparr> extensionHostConnections := (extensionHostConnections st3)
                  (token \<mapsto> details\<lparr> remoteStartParams := startParams,
                                     extensionHost := Some extensionHost' \<rparr>) \<rparr>
      in start env extensionHost' startParams st4)"

definition handleConnectionTypeRequest ::
  "environment \<Rightarrow> connection_type_request \<Rightarrow> protocol_holder \<Rightarrow> socket_id \<Rightarrow> broker
     \<Rightarrow> error + broker" where
  "handleConnectionTypeRequest env connectionTypeRequest protocolHolder socket st =
     (case desiredConnectionType connectionTypeRequest of
        Some Management \<Rightarrow>
          (let managementConnectionDetails =
                 managementConnections st (reconnectionToken protocolHolder)
           in if managementConnectionDetails = None \<and> isReconnecting protocolHolder = True
              then Inr (abortWebSocketConnection protocolHolder
                          ''Asking to reconnect but provided token is unknown'' st)
              else
                (case managementConnectionDetails of
                   None \<Rightarrow>
                     Inr (sendControlMessage protocolHolder okMessage
                       (emit (ClientConnected (persistentProtocol protocolHolder))
                         (st\<lparr> managementConnections := (managementConnections st)
                                (reconnectionToken protocolHolder \<mapsto>
                                   \<lparr> md_protocolHolder = protocolHolder, md_disposed = False \<rparr>) \<rparr>)))
                 | Some details \<Rightarrow>
                     Inr (sendControlMessage protocolHolder okMessage
                            (management_reconnect details protocolHolder st))))
      | Some ExtensionHost \<Rightarrow>
          (let remoteExtensionHostStartParams = merge_args (args connectionTypeRequest);
               extensionHostConnectionDetails =
                 extensionHostConnections st (reconnectionToken protocolHolder)
           in if extensionHostConnectionDetails = None \<and> isReconnecting protocolHolder = True
              then Inr (abortWebSocketConnection protocolHolder
                          ''Reconnecting but no previous connection has been found. Aborting.'' st)
              else
                (case extensionHostConnectionDetails of
                   Some details \<Rightarrow>
                     (case extensionHost details of
                        None \<Rightarrow>
                          Inr (abortWebSocketConnection protocolHolder
                                 ''Extension host is not defined'' st)
                      | Some extensionHostProcess' \<Rightarrow>
                          reconnect extensionHostProcess' protocolHolder socket
                            (port_or_0 (port (remoteStartParams details))) st)
                 | None \<Rightarrow>
                     Inr (sendControlMessage protocolHolder okMessage
                            (fresh_extension_host env protocolHolder socket
                               remoteExtensionHostStartParams st))))
      | Some Tunnel \<Rightarrow> Inr (sendControlMessage protocolHolder okMessage st)
      | None \<Rightarrow> Inr (sendControlMessage protocolHolder okMessage st))"

text \<open>The listener that \<open>handle\<close> adds to \<open>onControlMessage\<close> of the new protocol.\<close>

definition onControlMessage ::
  "environment \<Rightarrow> protocol_holder \<Rightarrow> socket_id \<Rightarrow> control_message \<Rightarrow> broker \<Rightarrow> error + broker" where
  "onControlMessage env protocolHolder socket jsonControlMessage st =
     (case jsonControlMessage of
        Auth \<Rightarrow> Inr (handleAuthRequest protocolHolder st)
      | ConnectionType r \<Rightarrow> handleConnectionTypeRequest env r protocolHolder socket st
      | OtherControl \<Rightarrow> Inr st)"

text \<open>\<open>!reconnectionToken || isArray(reconnectionToken)\<close>\<close>

definition single_token :: "query_value option \<Rightarrow> string option" where
  "single_token q =
     (case q of
        Some (Single t) \<Rightarrow> if t = [] then None else Some t
      | _ \<Rightarrow> None)"

definition handle :: "header_parser \<Rightarrow> incoming_message \<Rightarrow> socket_id \<Rightarrow> broker \<Rightarrow> broker" where
  "handle hp req socket st =
     (let ((websocketNodeSocket, deflate), st1) = upgradeSocket hp req socket st;
          reconnecting = (query_reconnection req = Some (Single ''true''));
          skipFrames = (query_skipWebSocketFrames req = Some (Single ''true''))
      in case single_token (query_reconnectionToken req) of
           None \<Rightarrow> emit (SocketEnd socket (Some (''HTTP/1.1 400 Bad Request'' @ CRLF @ CRLF))) st1
         | Some token \<Rightarrow>
             (let (protocolHolder, st2) =
                    new_VSCodeProtocolHolder websocketNodeSocket reconnecting token deflate
                      skipFrames st1
              in st2\<lparr> controlMessageListeners := (controlMessageListeners st2)
                       (persistentProtocol protocolHolder \<mapsto> (protocolHolder, socket)) \<rparr>))"

text \<open>
  The protocol \<open>p\<close> delivers a control message: the listener that \<open>handle\<close> added for it,
  if any, is called with the holder and the socket it closed over.
\<close>

definition receive_control ::
  "environment \<Rightarrow> protocol_id \<Rightarrow> control_message \<Rightarrow> broker \<Rightarrow> error + broker" where
  "receive_control env p msg st =
     (case controlMessageListeners st p of
        Some (protocolHolder, socket) \<Rightarrow> onControlMessage env protocolHolder socket msg st
      | None \<Rightarrow> Inr st)"

text \<open>The constructor of \<open>CheWebsocketHandler\<close>: two empty tables; no object exists yet.\<close>

definition new_broker :: broker where
  "new_broker =
     \<lparr> managementConnections = Map.empty,
       extensionHostConnections = Map.empty,
       protocols = (\<lambda>_. \<lparr> p_socket = 0, p_incoming = [], p_disposed = False \<rparr>),
       webSockets = (\<lambda>_. \<lparr> ws_permessageDeflate = False, ws_recordInflateBytes = False,
                            recordedInflateBytes = [] \<rparr>),
       extensionHosts = (\<lambda>_. \<lparr> uriTransformerPath = [], eh_socket = 0,
            eh_protocolHolder = \<lparr> webSocketNodeSocket = 0, reconnection = False,
              reconnectionToken = [], permessageDeflate = False, skipWebSocketFrames = False,
              persistentProtocol = 0, reconnectionTokenHash = [] \<rparr>,
            eh_disposed = False, extensionHostProcess = None \<rparr>),
       processes = (\<lambda>_. \<lparr> pid = 0, message_listeners = [], cp_owner = 0, killed = False \<rparr>),
       controlMessageListeners = Map.empty,
       next_protocol = 0, next_exthost = 0, next_process = 0,
       trace = [] \<rparr>"

section \<open>Vocabulary of the results\<close>

text \<open>The control message that \<open>connect\<close> sends, and the message that hands the socket over.\<close>

definition debugPort_message :: "int option \<Rightarrow> json" where
  "debugPort_message debugPort =
     (case truthy_port debugPort of
        Some n \<Rightarrow> JObject [(''debugPort'', JNumber n)]
      | None \<Rightarrow> JObject [])"

definition socket_message :: "string \<Rightarrow> bool \<Rightarrow> bool \<Rightarrow> string \<Rightarrow> json" where
  "socket_message initialDataChunk skipFrames deflate inflateBytes =
     JObject [(''type'', JString ''VSCODE_EXTHOST_IPC_SOCKET''),
              (''initialDataChunk'', JString initialDataChunk),
              (''skipWebSocketFrames'', JBool skipFrames),
              (''permessageDeflate'', JBool deflate),
              (''inflateBytes'', JString inflateBytes)]"

definition is_ready :: "json \<Rightarrow> bool" where
  "is_ready message = has_type message ''VSCODE_EXTHOST_IPC_READY''"

text \<open>The workers on which \<open>kill\<close> was called, in order.\<close>

definition kills :: "broker \<Rightarrow> process_id list" where
  "kills st = concat (map (\<lambda>e. case e of Kill p \<Rightarrow> [p] | _ \<Rightarrow> []) (trace st))"

text \<open>
  Between \<open>st\<close> and \<open>st'\<close> no \<open>kill\<close> was called, and no child process that was alive in
  \<open>st\<close> is marked killed in \<open>st'\<close>.
\<close>

definition no_worker_killed :: "broker \<Rightarrow> broker \<Rightarrow> bool" where
  "no_worker_killed st st' =
     (kills st' = kills st \<and> (\<forall>q. killed (processes st' q) \<longrightarrow> killed (processes st q)))"

section \<open>Scenarios\<close>

text \<open>
  Concrete requests and the states they lead to, starting from a new broker.  Connection
  number \<open>n\<close> arrives on socket \<open>n\<close> and gets protocol \<open>n\<close>.
\<close>

text \<open>A header parser for requests without extensions, and one that knows a single offer.\<close>

definition no_extensions :: header_parser where
  "no_extensions = \<lparr> parse = (\<lambda>_. []), format = (\<lambda>_. []) \<rparr>"


definition env0 :: environment where
  "env0 = \<lparr> productCommit = Some ''abc'', env_uriTransformerPath = ''/che-uri-transformer'',
            findFreePort = 9229, fork_pid = 4242 \<rparr>"

text \<open>The key is the sample nonce of RFC 6455, quoted in the source of \<open>upgradeSocket\<close>.\<close>

definition connect_request :: "string \<Rightarrow> bool \<Rightarrow> incoming_message" where
  "connect_request token reconnecting =
     \<lparr> sec_websocket_key = Some ''dGhlIHNhbXBsZSBub25jZQ=='',
       sec_websocket_extensions = None,
       query_reconnectionToken = Some (Single token),
       query_reconnection = (if reconnecting then Some (Single ''true'') else None),
       query_skipWebSocketFrames = None \<rparr>"

definition holder_of :: "string \<Rightarrow> bool \<Rightarrow> nat \<Rightarrow> protocol_holder" where
  "holder_of token reconnecting n =
     \<lparr> webSocketNodeSocket = n, reconnection = reconnecting, reconnectionToken = token,
       permessageDeflate = False, skipWebSocketFrames = False, persistentProtocol = n,
       reconnectionTokenHash = take 8 token \<rparr>"

definition management_request :: connection_type_request where
  "management_request =
     \<lparr> desiredConnectionType = Some Management, commit = Some ''abc'', args = None \<rparr>"

definition extension_host_request :: connection_type_request where
  "extension_host_request =
     \<lparr> desiredConnectionType = Some ExtensionHost, commit = Some ''abc'',
       args = Some \<lparr> args_language = None, args_port = Some 0, args_break = None \<rparr> \<rparr>"

text \<open>A rejected promise leaves the state as it was.\<close>

definition proceed :: "error + broker \<Rightarrow> broker \<Rightarrow> broker" where
  "proceed r st = (case r of Inr st' \<Rightarrow> st' | Inl e \<Rightarrow> st)"

text \<open>Scenario 1: a first management connection with token \<open>T1\<close>.\<close>

definition management_upgraded :: broker where
  "management_upgraded = handle no_extensions (connect_request ''T1'' False) 0 new_broker"

definition management_connected :: broker where
  "management_connected =
     proceed (receive_control env0 0 (ConnectionType management_request) management_upgraded)
       management_upgraded"

text \<open>Scenario 2: a second connection with token \<open>T1\<close> and \<open>reconnection=true\<close>.\<close>

definition management_upgraded_again :: broker where
  "management_upgraded_again =
     handle no_extensions (connect_request ''T1'' True) 1 management_connected"

text \<open>Scenario 3: a connection with the unknown token \<open>T99\<close> and \<open>reconnection=true\<close>.\<close>

definition unknown_upgraded :: broker where
  "unknown_upgraded = handle no_extensions (connect_request ''T99'' True) 0 new_broker"

text \<open>
  Scenario 4: a first extension-host connection with token \<open>T2\<close> and debug port 0; the
  worker then sends \<open>VSCODE_EXTHOST_IPC_READY\<close>.
\<close>

definition exthost_upgraded :: broker where
  "exthost_upgraded = handle no_extensions (connect_request ''T2'' False) 0 new_broker"

definition exthost_started :: broker where
  "exthost_started =
     proceed (receive_control env0 0 (ConnectionType extension_host_request) exthost_upgraded)
       exthost_upgraded"

definition ready_message :: json where
  "ready_message = JObject [(''type'', JString ''VSCODE_EXTHOST_IPC_READY'')]"

definition exthost_attached :: broker where
  "exthost_attached = on_message 0 ready_message exthost_started"

text \<open>Scenario 5: a second connection with token \<open>T2\<close> and \<open>reconnection=true\<close>.\<close>

definition exthost_upgraded_again :: broker where
  "exthost_upgraded_again =
     handle no_extensions (connect_request ''T2'' True) 1 exthost_attached"

text \<open>Requests with another key: one that is no nonce at all, and one with a no-break space.\<close>

definition malformed_key_request :: incoming_message where
  "malformed_key_request = (connect_request ''T1'' False)\<lparr> sec_websocket_key := Some ''x'' \<rparr>"



section \<open>Results about the URI transformer\<close>

lemma transformIncoming_remote:
  "scheme u = ''vscode-remote'' \<Longrightarrow>
   transformIncoming (transformer ra) u =
     \<lparr> scheme = ''file'', authority = None, path = path u, query = None, fragment = None \<rparr>"
  by (simp add: transformer_def)

lemma transformOutgoing_file:
  "scheme u = ''file'' \<Longrightarrow>
   transformOutgoing (transformer ra) u =
     \<lparr> scheme = ''vscode-remote'', authority = Some ra, path = path u,
       query = None, fragment = None \<rparr>"
  by (simp add: transformer_def)

text \<open>
  Claim C9 as written: for every URI \<open>u\<close> with scheme \<open>vscode-remote\<close>, going in and
  out again gives \<open>u\<close> back.  It fails for a URI of another authority than the
  session's: the incoming rewrite drops the authority and the outgoing rewrite puts the
  session's authority in its place.
\<close>

theorem C9_roundtrip_counterexample:
  "scheme \<lparr> scheme = ''vscode-remote'', authority = Some ''other:1'', path = Some ''/a'',
            query = None, fragment = None \<rparr> = ''vscode-remote'' \<and>
   transformOutgoing (transformer ''localhost:8080'')
     (transformIncoming (transformer ''localhost:8080'')
        \<lparr> scheme = ''vscode-remote'', authority = Some ''other:1'', path = Some ''/a'',
          query = None, fragment = None \<rparr>)
   \<noteq> \<lparr> scheme = ''vscode-remote'', authority = Some ''other:1'', path = Some ''/a'',
        query = None, fragment = None \<rparr>"
  by (simp add: transformer_def)

text \<open>
  Claim C9, amended: for a URI \<open>u\<close> with scheme \<open>vscode-remote\<close>, the round trip
  yields the URI with scheme \<open>vscode-remote\<close>, the session's authority and the path of
  \<open>u\<close>, and nothing else; it gives \<open>u\<close> back exactly when \<open>u\<close> already carries the
  session's authority and has neither query nor fragment.
\<close>

theorem C9_roundtrip_amended:
  assumes "scheme u = ''vscode-remote''"
  shows "transformOutgoing (transformer ra) (transformIncoming (transformer ra) u) =
           \<lparr> scheme = ''vscode-remote'', authority = Some ra, path = path u,
             query = None, fragment = None \<rparr>
         \<and> (transformOutgoing (transformer ra) (transformIncoming (transformer ra) u) = u
              \<longleftrightarrow> authority u = Some ra \<and> query u = None \<and> fragment u = None)"
proof -
  have out: "transformOutgoing (transformer ra) (transformIncoming (transformer ra) u) =
           \<lparr> scheme = ''vscode-remote'', authority = Some ra, path = path u,
             query = None, fragment = None \<rparr>"
    using assms by (simp add: transformIncoming_remote transformOutgoing_file)
  have "(\<lparr> scheme = ''vscode-remote'', authority = Some ra, path = path u,
             query = None, fragment = None \<rparr> = u)
        \<longleftrightarrow> authority u = Some ra \<and> query u = None \<and> fragment u = None"
    using assms by (cases u) auto
  with out show ?thesis by simp
qed

theorem C9_roundtrip_amended_witness:
  "scheme \<lparr> scheme = ''vscode-remote'', authority = Some ''localhost:8080'',
            path = Some ''/eclipse/che-dashboard'', query = None, fragment = None \<rparr>
     = ''vscode-remote'' \<and>
   transformOutgoing (transformer ''localhost:8080'')
     (transformIncoming (transformer ''localhost:8080'')
        \<lparr> scheme = ''vscode-remote'', authority = Some ''localhost:8080'',
          path = Some ''/eclipse/che-dashboard'', query = None, fragment = None \<rparr>)
   = \<lparr> scheme = ''vscode-remote'', authority = Some ''localhost:8080'',
       path = Some ''/eclipse/che-dashboard'', query = None, fragment = None \<rparr>"
  using C9_roundtrip_amended
    [of "\<lparr> scheme = ''vscode-remote'', authority = Some ''localhost:8080'',
           path = Some ''/eclipse/che-dashboard'', query = None, fragment = None \<rparr>"
        "''localhost:8080''"]
  by simp

section \<open>Results about the remote filesystem channel\<close>







section \<open>Evaluating the digest\<close>

























section \<open>Results about the WebSocket upgrade\<close>

lemma upgradeSocket_trace:
  "trace (snd (upgradeSocket hp req socket st)) =
     trace st @ [SocketWrite socket (join CRLF (response_headers hp req @ [CRLF]))]"
  by (simp add: upgradeSocket_def Let_def emit_def)

lemma upgradeSocket_tables:
  "managementConnections (snd (upgradeSocket hp req socket st)) = managementConnections st"
  "extensionHostConnections (snd (upgradeSocket hp req socket st)) = extensionHostConnections st"
  "controlMessageListeners (snd (upgradeSocket hp req socket st)) = controlMessageListeners st"
  "protocols (snd (upgradeSocket hp req socket st)) = protocols st"
  "next_protocol (snd (upgradeSocket hp req socket st)) = next_protocol st"
  by (simp_all add: upgradeSocket_def Let_def emit_def)


text \<open>
  Claim C5 as written: when the header \<open>Sec-WebSocket-Key\<close> is missing or malformed, the
  gateway writes \<open>HTTP/1.1 400\<close>, closes the socket and writes no \<open>101\<close> response.  It
  fails: \<open>upgradeSocket\<close> has no check of the key.  For the key \<open>x\<close>, which is no 16-byte
  nonce, the only thing done to the socket is writing the \<open>101\<close> response, whose accept
  value is computed from \<open>x\<close>, and the framed channel is returned.
\<close>

theorem C5_malformed_key_counterexample:
  "sec_websocket_key malformed_key_request = Some ''x''
   \<and> trace (snd (upgradeSocket no_extensions malformed_key_request 0 new_broker)) =
       [SocketWrite 0
          (''HTTP/1.1 101 Switching Protocols'' @ CRLF @ ''Upgrade: websocket'' @ CRLF
           @ ''Connection: Upgrade'' @ CRLF
           @ ''Sec-WebSocket-Accept: '' @ digest malformed_key_request @ CRLF @ CRLF)]
   \<and> fst (upgradeSocket no_extensions malformed_key_request 0 new_broker) = (0, False)"
  by (simp add: malformed_key_request_def connect_request_def upgradeSocket_def Let_def emit_def
      new_broker_def response_headers_def no_extensions_def)

text \<open>
  Claim C5, amended: for every upgrade request that carries a \<open>Sec-WebSocket-Key\<close>
  header, well-formed or not, \<open>upgradeSocket\<close> validates nothing: the one thing it does
  to the socket is to write the \<open>101 Switching Protocols\<close> response, with the accept value
  computed from the trimmed header value, and it constructs the framed channel.
\<close>

theorem C5_no_validation_amended:
  assumes "sec_websocket_key req = Some k"
  shows "fst (upgradeSocket hp req socket st) =
           (socket, map_of (parse hp (sec_websocket_extensions req)) ''permessage-deflate'' \<noteq> None)
         \<and> trace (snd (upgradeSocket hp req socket st)) =
             trace st @ [SocketWrite socket (join CRLF (response_headers hp req @ [CRLF]))]
         \<and> take 4 (response_headers hp req) =
             [''HTTP/1.1 101 Switching Protocols'', ''Upgrade: websocket'', ''Connection: Upgrade'',
              ''Sec-WebSocket-Accept: '' @ base64 (sha1 (utf8 (trim k @ GUID)))]
         \<and> webSockets (snd (upgradeSocket hp req socket st)) socket =
             \<lparr> ws_permessageDeflate =
                 (map_of (parse hp (sec_websocket_extensions req)) ''permessage-deflate'' \<noteq> None),
               ws_recordInflateBytes =
                 (map_of (parse hp (sec_websocket_extensions req)) ''permessage-deflate'' \<noteq> None),
               recordedInflateBytes = [] \<rparr>"
  using assms
  by (simp add: upgradeSocket_def Let_def emit_def response_headers_def digest_def
      key_plus_GUID_def)

theorem C5_no_validation_amended_witness:
  "sec_websocket_key malformed_key_request = Some ''x''
   \<and> fst (upgradeSocket no_extensions malformed_key_request 0 new_broker) = (0, False)
   \<and> trace (snd (upgradeSocket no_extensions malformed_key_request 0 new_broker)) =
       [SocketWrite 0 (join CRLF (response_headers no_extensions malformed_key_request @ [CRLF]))]
   \<and> take 4 (response_headers no_extensions malformed_key_request) =
       [''HTTP/1.1 101 Switching Protocols'', ''Upgrade: websocket'', ''Connection: Upgrade'',
        ''Sec-WebSocket-Accept: '' @ base64 (sha1 (utf8 (''x'' @ GUID)))]"
proof -
  have k: "sec_websocket_key malformed_key_request = Some ''x''"
    by (simp add: malformed_key_request_def)
  have t: "trim ''x'' = ''x''"
    by (simp add: trim_def js_whitespace_def)
  have p: "map_of (parse no_extensions (sec_websocket_extensions malformed_key_request))
             ''permessage-deflate'' = None"
    by (simp add: no_extensions_def)
  show ?thesis
    using k C5_no_validation_amended [OF k, of no_extensions 0 new_broker] t p
    by (simp add: new_broker_def)
qed




section \<open>Results about the session broker\<close>

lemma abort_trace:
  "trace (abortWebSocketConnection holder reason st) =
     trace st @ [SendControl (persistentProtocol holder)
                   (JObject [(''reason'', JString reason), (''type'', JString ''error'')]),
                 DisposeProtocol (persistentProtocol holder),
                 WsDrain (getSocket st (persistentProtocol holder)),
                 WsDispose (getSocket st (persistentProtocol holder))]"
  by (simp add: abortWebSocketConnection_def Let_def sendControl_def dispose_protocol_def
      emit_def getSocket_def)

lemma abort_state:
  "managementConnections (abortWebSocketConnection holder reason st) = managementConnections st"
  "extensionHostConnections (abortWebSocketConnection holder reason st) = extensionHostConnections st"
  "p_disposed (protocols (abortWebSocketConnection holder reason st) (persistentProtocol holder))"
  by (simp_all add: abortWebSocketConnection_def Let_def sendControl_def dispose_protocol_def
      emit_def getSocket_def)

lemma management_reconnect_trace:
  "trace (management_reconnect this holder st) =
     trace st @ [SendControl (persistentProtocol holder) okMessage,
                 BeginAcceptReconnection (persistentProtocol (md_protocolHolder this))
                   (getSocket st (persistentProtocol holder))
                   (p_incoming (protocols st (persistentProtocol holder))),
                 EndAcceptReconnection (persistentProtocol (md_protocolHolder this)),
                 DisposeProtocol (persistentProtocol holder)]"
  by (simp add: management_reconnect_def Let_def sendControlMessage_def sendControl_def
      readEntireBuffer_def beginAcceptReconnection_def endAcceptReconnection_def
      dispose_protocol_def emit_def getSocket_def)

lemma management_reconnect_state:
  "managementConnections (management_reconnect this holder st) = managementConnections st"
  "p_disposed (protocols (management_reconnect this holder st) (persistentProtocol holder))"
  "persistentProtocol (md_protocolHolder this) \<noteq> persistentProtocol holder \<Longrightarrow>
   protocols (management_reconnect this holder st) (persistentProtocol (md_protocolHolder this)) =
     (protocols st (persistentProtocol (md_protocolHolder this)))
       \<lparr> p_socket := getSocket st (persistentProtocol holder),
         p_incoming := p_incoming (protocols st (persistentProtocol (md_protocolHolder this)))
                       @ p_incoming (protocols st (persistentProtocol holder)) \<rparr>"
  by (simp_all add: management_reconnect_def Let_def sendControlMessage_def sendControl_def
      readEntireBuffer_def beginAcceptReconnection_def endAcceptReconnection_def
      dispose_protocol_def emit_def getSocket_def)


lemma connect_chunk:
  "fst (connect this holder dp st) =
     base64 (p_incoming (protocols st (persistentProtocol (eh_protocolHolder (extensionHosts st this)))))"
  by (simp add: connect_def Let_def sendControlMessage_def sendControl_def emit_def
      readEntireBuffer_def dispose_protocol_def split: option.splits prod.splits)

lemma connect_trace:
  "trace (snd (connect this holder dp st)) =
     trace st @ [SendControl (persistentProtocol holder) (debugPort_message dp),
                 DisposeProtocol (persistentProtocol holder),
                 SocketPause (eh_socket (extensionHosts st this))]"
  by (simp add: connect_def Let_def sendControlMessage_def sendControl_def emit_def
      readEntireBuffer_def dispose_protocol_def debugPort_message_def
      split: option.splits prod.splits)

lemma connect_frame:
  "processes (snd (connect this holder dp st)) = processes st"
  "next_process (snd (connect this holder dp st)) = next_process st"
  "extensionHosts (snd (connect this holder dp st)) = extensionHosts st"
  "webSockets (snd (connect this holder dp st)) = webSockets st"
  "extensionHostConnections (snd (connect this holder dp st)) = extensionHostConnections st"
  "managementConnections (snd (connect this holder dp st)) = managementConnections st"
  by (simp_all add: connect_def Let_def sendControlMessage_def sendControl_def emit_def
      readEntireBuffer_def dispose_protocol_def split: option.splits prod.splits)

lemma sendExthostIpcSocket_trace:
  "trace (sendExthostIpcSocket this ws socket p chunk deflate st) =
     trace st @ [WsDrain ws,
                 Send p (socket_message chunk
                           (skipWebSocketFrames (eh_protocolHolder (extensionHosts st this)))
                           deflate (base64 (recordedInflateBytes (webSockets st ws)))) socket]"
  by (simp add: sendExthostIpcSocket_def Let_def emit_def socket_message_def)

lemma reconnect_stored:
  assumes "extensionHostProcess (extensionHosts st this) = Some p"
  shows "\<exists>st'. reconnect this holder socket dp st = Inr st'
          \<and> trace st' = trace st @
               [SendControl (persistentProtocol holder) (debugPort_message dp),
                DisposeProtocol (persistentProtocol holder),
                SocketPause (eh_socket (extensionHosts st this)),
                WsDrain (webSocketNodeSocket holder),
                Send p (socket_message
                          (base64 (p_incoming (protocols st
                             (persistentProtocol (eh_protocolHolder (extensionHosts st this))))))
                          (skipWebSocketFrames holder) (permessageDeflate holder)
                          (base64 (recordedInflateBytes (webSockets st (webSocketNodeSocket holder)))))
                  socket]
          \<and> extensionHosts st' = (extensionHosts st)
               (this := (extensionHosts st this)\<lparr> eh_protocolHolder := holder \<rparr>)
          \<and> processes st' = processes st
          \<and> next_process st' = next_process st
          \<and> extensionHostConnections st' = extensionHostConnections st"
proof -
  obtain chunk st1 where c: "connect this holder dp st = (chunk, st1)"
    by (cases "connect this holder dp st")
  have chunk: "chunk = base64 (p_incoming (protocols st
        (persistentProtocol (eh_protocolHolder (extensionHosts st this)))))"
    using connect_chunk [of this holder dp st] c by simp
  have st1: "st1 = snd (connect this holder dp st)" using c by simp
  let ?st2 = "st1\<lparr> extensionHosts := (extensionHosts st1)
                 (this := (extensionHosts st1 this)\<lparr> eh_protocolHolder := holder \<rparr>) \<rparr>"
  let ?st3 = "sendExthostIpcSocket this (webSocketNodeSocket holder) socket p chunk
                (permessageDeflate holder) ?st2"
  have r: "reconnect this holder socket dp st = Inr ?st3"
    using assms c by (simp add: reconnect_def)
  have t: "trace ?st3 = trace st @
               [SendControl (persistentProtocol holder) (debugPort_message dp),
                DisposeProtocol (persistentProtocol holder),
                SocketPause (eh_socket (extensionHosts st this)),
                WsDrain (webSocketNodeSocket holder),
                Send p (socket_message chunk
                          (skipWebSocketFrames holder) (permessageDeflate holder)
                          (base64 (recordedInflateBytes (webSockets st (webSocketNodeSocket holder)))))
                  socket]"
    by (simp add: sendExthostIpcSocket_trace st1 connect_trace connect_frame)
  have f: "extensionHosts ?st3 = (extensionHosts st)
               (this := (extensionHosts st this)\<lparr> eh_protocolHolder := holder \<rparr>)"
       "processes ?st3 = processes st" "next_process ?st3 = next_process st"
       "extensionHostConnections ?st3 = extensionHostConnections st"
    by (simp_all add: sendExthostIpcSocket_def Let_def emit_def st1 connect_frame)
  show ?thesis using r t f chunk by simp
qed

lemma start_listeners:
  "message_listeners (processes (start env this startParams st) (next_process st)) =
     [OnConsoleMessageListener this,
      OnMessageReadyListener this (next_process st)
        (base64 (p_incoming (protocols st
           (persistentProtocol (eh_protocolHolder (extensionHosts st this))))))]"
  by (simp add: start_def Let_def split_beta emit_def connect_frame connect_chunk)

lemma start_frame:
  "extensionHosts (start env this startParams st) =
     (extensionHosts st)(this := (extensionHosts st this)\<lparr> extensionHostProcess := Some (next_process st) \<rparr>)"
  "webSockets (start env this startParams st) = webSockets st"
  "next_process (start env this startParams st) = Suc (next_process st)"
  "q \<noteq> next_process st \<Longrightarrow> processes (start env this startParams st) q = processes st q"
  "killed (processes (start env this startParams st) (next_process st)) = False"
  "pid (processes (start env this startParams st) (next_process st)) = fork_pid env"
  "extensionHostConnections (start env this startParams st) = extensionHostConnections st"
  "managementConnections (start env this startParams st) = managementConnections st"
  by (simp_all add: start_def Let_def split_beta emit_def connect_frame)

lemma start_trace:
  "trace (start env this startParams st) =
     trace st @ [SendControl (persistentProtocol (eh_protocolHolder (extensionHosts st this)))
                   (debugPort_message (port startParams)),
                 DisposeProtocol (persistentProtocol (eh_protocolHolder (extensionHosts st this))),
                 SocketPause (eh_socket (extensionHosts st this)),
                 Fork (next_process st)
                   [''--type=extensionHost'',
                    ''--uriTransformerPath='' @ uriTransformerPath (extensionHosts st this)]
                   (execArgv startParams)]"
  by (simp add: start_def Let_def split_beta emit_def connect_frame connect_trace)

lemma on_message_console_only:
  "message_listeners (processes st p) = [OnConsoleMessageListener eh] \<Longrightarrow> on_message p m st = st"
  by (simp add: on_message_def run_listener_def)

lemma on_messages_console_only:
  "message_listeners (processes st p) = [OnConsoleMessageListener eh] \<Longrightarrow> on_messages p ms st = st"
  by (induction ms) (simp_all add: on_message_console_only)

lemma on_message_waiting:
  assumes "message_listeners (processes st p) =
             [OnConsoleMessageListener eh, OnMessageReadyListener eh p chunk]"
  shows "on_message p m st =
           (if is_ready m then
              sendExthostIpcSocket eh
                (webSocketNodeSocket (eh_protocolHolder (extensionHosts st eh)))
                (eh_socket (extensionHosts st eh)) p chunk
                (permessageDeflate (eh_protocolHolder (extensionHosts st eh)))
                (st\<lparr> processes := (processes st)
                       (p := (processes st p)\<lparr> message_listeners := [OnConsoleMessageListener eh] \<rparr>) \<rparr>)
            else st)"
  using assms by (simp add: on_message_def run_listener_def is_ready_def Let_def)

lemma on_messages_waiting:
  assumes "message_listeners (processes st p) =
             [OnConsoleMessageListener eh, OnMessageReadyListener eh p chunk]"
  shows "trace (on_messages p ms st) =
           trace st @
           (if list_ex is_ready ms then
              [WsDrain (webSocketNodeSocket (eh_protocolHolder (extensionHosts st eh))),
               Send p (socket_message chunk
                         (skipWebSocketFrames (eh_protocolHolder (extensionHosts st eh)))
                         (permessageDeflate (eh_protocolHolder (extensionHosts st eh)))
                         (base64 (recordedInflateBytes (webSockets st
                            (webSocketNodeSocket (eh_protocolHolder (extensionHosts st eh)))))))
                 (eh_socket (extensionHosts st eh))]
            else [])
         \<and> message_listeners (processes (on_messages p ms st) p) =
             (if list_ex is_ready ms then [OnConsoleMessageListener eh]
              else [OnConsoleMessageListener eh, OnMessageReadyListener eh p chunk])"
  using assms
proof (induction ms arbitrary: st)
  case Nil
  then show ?case by simp
next
  case (Cons m ms)
  show ?case
  proof (cases "is_ready m")
    case True
    let ?st1 = "st\<lparr> processes := (processes st)
                   (p := (processes st p)\<lparr> message_listeners := [OnConsoleMessageListener eh] \<rparr>) \<rparr>"
    let ?st2 = "sendExthostIpcSocket eh
                (webSocketNodeSocket (eh_protocolHolder (extensionHosts st eh)))
                (eh_socket (extensionHosts st eh)) p chunk
                (permessageDeflate (eh_protocolHolder (extensionHosts st eh))) ?st1"
    have m: "on_message p m st = ?st2"
      using on_message_waiting [OF Cons.prems] True by simp
    have l: "message_listeners (processes ?st2 p) = [OnConsoleMessageListener eh]"
      by (simp add: sendExthostIpcSocket_def Let_def emit_def)
    have "on_messages p (m # ms) st = ?st2"
      using m on_messages_console_only [OF l] by simp
    then show ?thesis
      using True l by (simp add: sendExthostIpcSocket_trace)
  next
    case False
    have "on_message p m st = st"
      using on_message_waiting [OF Cons.prems] False by simp
    then show ?thesis
      using Cons.IH [OF Cons.prems] False by simp
  qed
qed

subsection \<open>No event on the socket side kills a worker\<close>

lemma no_worker_killedI:
  assumes "\<exists>es. trace st' = trace st @ es \<and> (\<forall>e\<in>set es. \<forall>p. e \<noteq> Kill p)"
    and "\<And>q. killed (processes st' q) \<Longrightarrow> killed (processes st q)"
  shows "no_worker_killed st st'"
proof -
  from assms(1) obtain es where es: "trace st' = trace st @ es" "\<forall>e\<in>set es. \<forall>p. e \<noteq> Kill p"
    by blast
  have "concat (map (\<lambda>e. case e of Kill p \<Rightarrow> [p] | _ \<Rightarrow> []) es) = []"
    using es(2) by (induction es) (auto split: effect.splits)
  then have "kills st' = kills st" by (simp add: kills_def es(1))
  with assms(2) show ?thesis by (auto simp: no_worker_killed_def)
qed

lemma no_worker_killed_refl: "no_worker_killed st st"
  by (simp add: no_worker_killed_def)

lemma sendControlMessage_no_kill: "no_worker_killed st (sendControlMessage h m st)"
  by (rule no_worker_killedI) (simp_all add: sendControlMessage_def sendControl_def emit_def)

lemma no_worker_killed_trans:
  "no_worker_killed a b \<Longrightarrow> no_worker_killed b c \<Longrightarrow> no_worker_killed a c"
  by (auto simp: no_worker_killed_def)

lemma abort_no_kill: "no_worker_killed st (abortWebSocketConnection h reason st)"
  by (rule no_worker_killedI)
     (simp_all add: abort_trace, simp add: abortWebSocketConnection_def Let_def sendControl_def
        dispose_protocol_def emit_def)

lemma management_reconnect_no_kill: "no_worker_killed st (management_reconnect this h st)"
  by (rule no_worker_killedI)
     (simp_all add: management_reconnect_trace, simp add: management_reconnect_def Let_def
        sendControlMessage_def sendControl_def readEntireBuffer_def beginAcceptReconnection_def
        endAcceptReconnection_def dispose_protocol_def emit_def)

lemma reconnect_no_kill:
  assumes "reconnect this h socket dp st = Inr st'"
  shows "no_worker_killed st st'"
proof -
  from assms obtain p where p: "extensionHostProcess (extensionHosts st this) = Some p"
    by (auto simp: reconnect_def split: option.splits)
  from reconnect_stored [OF p, of h socket dp] assms
  show ?thesis by (intro no_worker_killedI) auto
qed

lemma start_no_kill: "no_worker_killed st (start env this sp st)"
proof (rule no_worker_killedI)
  show "\<exists>es. trace (start env this sp st) = trace st @ es \<and> (\<forall>e\<in>set es. \<forall>p. e \<noteq> Kill p)"
    by (simp add: start_trace)
next
  fix q assume k: "killed (processes (start env this sp st) q)"
  show "killed (processes st q)"
  proof (cases "q = next_process st")
    case True
    with k start_frame(5) [of env this sp st] show ?thesis by simp
  next
    case False
    with k start_frame(4) [of q st env this sp] show ?thesis by simp
  qed
qed

lemma fresh_extension_host_unfold:
  "fresh_extension_host env h socket sp st =
     start env (next_exthost st) (validateDebugPort env sp)
       (st\<lparr> extensionHosts := (extensionHosts st)
              (next_exthost st :=
                 \<lparr> uriTransformerPath = env_uriTransformerPath env, eh_socket = socket,
                   eh_protocolHolder = h, eh_disposed = False, extensionHostProcess = None \<rparr>),
            next_exthost := Suc (next_exthost st),
            extensionHostConnections := (extensionHostConnections st)
              (reconnectionToken h \<mapsto>
                 \<lparr> ed_protocolHolder = h, remoteStartParams = validateDebugPort env sp,
                   extensionHost = Some (next_exthost st), ed_disposed = False \<rparr>) \<rparr>)"
  by (simp add: fresh_extension_host_def Let_def)

lemma fresh_no_kill: "no_worker_killed st (fresh_extension_host env h socket sp st)"
proof -
  let ?st4 = "st\<lparr> extensionHosts := (extensionHosts st)
              (next_exthost st :=
                 \<lparr> uriTransformerPath = env_uriTransformerPath env, eh_socket = socket,
                   eh_protocolHolder = h, eh_disposed = False, extensionHostProcess = None \<rparr>),
            next_exthost := Suc (next_exthost st),
            extensionHostConnections := (extensionHostConnections st)
              (reconnectionToken h \<mapsto>
                 \<lparr> ed_protocolHolder = h, remoteStartParams = validateDebugPort env sp,
                   extensionHost = Some (next_exthost st), ed_disposed = False \<rparr>) \<rparr>"
  have a: "no_worker_killed st ?st4"
    by (simp add: no_worker_killed_def kills_def)
  have b: "no_worker_killed ?st4 (start env (next_exthost st) (validateDebugPort env sp) ?st4)"
    by (rule start_no_kill)
  show ?thesis
    unfolding fresh_extension_host_unfold by (rule no_worker_killed_trans [OF a b])
qed

lemma fresh_management_no_kill:
  "no_worker_killed st
     (sendControlMessage h m (emit (ClientConnected p) (st\<lparr> managementConnections := t \<rparr>)))"
  by (rule no_worker_killedI) (simp_all add: sendControlMessage_def sendControl_def emit_def)

lemma control_message_no_kill:
  assumes "onControlMessage env h socket msg st = Inr st'"
  shows "no_worker_killed st st'"
proof (cases msg)
  case Auth
  with assms show ?thesis
    by (auto simp: onControlMessage_def handleAuthRequest_def sendControlMessage_no_kill)
next
  case OtherControl
  with assms show ?thesis by (auto simp: onControlMessage_def no_worker_killed_refl)
next
  case (ConnectionType r)
  with assms have h: "handleConnectionTypeRequest env r h socket st = Inr st'"
    by (simp add: onControlMessage_def)
  note nk = sendControlMessage_no_kill abort_no_kill management_reconnect_no_kill
    fresh_no_kill no_worker_killed_trans [OF management_reconnect_no_kill sendControlMessage_no_kill]
    no_worker_killed_trans [OF fresh_no_kill sendControlMessage_no_kill]
  show ?thesis
  proof (cases "desiredConnectionType r")
    case None
    with h show ?thesis by (auto simp: handleConnectionTypeRequest_def nk)
  next
    case (Some t)
    show ?thesis
    proof (cases t)
      case Management
      with h Some show ?thesis
        by (auto simp: handleConnectionTypeRequest_def Let_def nk fresh_management_no_kill
            split: if_splits option.splits)
    next
      case ExtensionHost
      with h Some show ?thesis
        by (auto simp: handleConnectionTypeRequest_def Let_def nk reconnect_no_kill
            split: if_splits option.splits)
    next
      case Tunnel
      with h Some show ?thesis by (auto simp: handleConnectionTypeRequest_def nk)
    qed
  qed
qed

lemma handle_no_kill: "no_worker_killed st (handle hp req socket st)"
  by (rule no_worker_killedI)
     (auto simp: handle_def upgradeSocket_def Let_def emit_def new_VSCodeProtocolHolder_def
        split: option.splits)

subsection \<open>The scenarios\<close>

lemmas scenario_defs =
  management_upgraded_def management_connected_def management_upgraded_again_def
  unknown_upgraded_def exthost_upgraded_def exthost_started_def exthost_attached_def
  exthost_upgraded_again_def proceed_def receive_control_def new_broker_def no_extensions_def
  env0_def connect_request_def holder_of_def management_request_def extension_host_request_def
  ready_message_def

lemmas broker_defs =
  handle_def upgradeSocket_def new_VSCodeProtocolHolder_def single_token_def
  onControlMessage_def handleConnectionTypeRequest_def handleAuthRequest_def
  abortWebSocketConnection_def management_reconnect_def management_dispose_def
  fresh_extension_host_def validateDebugPort_def merge_args_def port_or_0_def truthy_port_def
  start_def connect_def reconnect_def sendExthostIpcSocket_def execArgv_def
  on_message_def run_listener_def has_type_def
  sendControlMessage_def sendControl_def sendDisconnect_def readEntireBuffer_def
  beginAcceptReconnection_def endAcceptReconnection_def dispose_protocol_def getSocket_def
  isReconnecting_def emit_def Let_def split_beta


lemma management_connected_trace:
  "trace management_connected =
     [SocketWrite 0 (join CRLF (response_headers no_extensions (connect_request ''T1'' False) @ [CRLF])),
      ClientConnected 0, SendControl 0 okMessage]"
  by (simp add: scenario_defs broker_defs)

lemma management_upgraded_again_facts:
  "managementConnections management_upgraded_again ''T1'' =
     Some \<lparr> md_protocolHolder = holder_of ''T1'' False 0, md_disposed = False \<rparr>"
  "controlMessageListeners management_upgraded_again 1 = Some (holder_of ''T1'' True 1, 1)"
  "getSocket management_upgraded_again 1 = 1"
  "p_incoming (protocols management_upgraded_again 1) = []"
  "trace management_upgraded_again =
     [SocketWrite 0 (join CRLF (response_headers no_extensions (connect_request ''T1'' False) @ [CRLF])),
      ClientConnected 0, SendControl 0 okMessage,
      SocketWrite 1 (join CRLF (response_headers no_extensions (connect_request ''T1'' True) @ [CRLF]))]"
  by (simp_all add: scenario_defs broker_defs)

lemma exthost_started_facts:
  "extensionHostConnections exthost_started ''T2'' =
     Some \<lparr> ed_protocolHolder = holder_of ''T2'' False 0,
            remoteStartParams = \<lparr> language = ''en'', port = Some 9229, break = None \<rparr>,
            extensionHost = Some 0, ed_disposed = False \<rparr>"
  "extensionHostProcess (extensionHosts exthost_started 0) = Some 0"
  "pid (processes exthost_started 0) = 4242"
  "trace exthost_started =
     [SocketWrite 0 (join CRLF (response_headers no_extensions (connect_request ''T2'' False) @ [CRLF])),
      SendControl 0 (JObject [(''debugPort'', JNumber 9229)]),
      DisposeProtocol 0, SocketPause 0,
      Fork 0 [''--type=extensionHost'', ''--uriTransformerPath=/che-uri-transformer'']
        [Inspect False 9229],
      SendControl 0 okMessage]"
  by (simp_all add: scenario_defs broker_defs)

lemma exthost_attached_facts:
  "trace exthost_attached = trace exthost_started @
     [WsDrain 0, Send 0 (socket_message [] False False []) 0]"
  "message_listeners (processes exthost_attached 0) = [OnConsoleMessageListener 0]"
  by (simp_all add: scenario_defs broker_defs socket_message_def)

lemma exthost_upgraded_again_facts:
  "extensionHostConnections exthost_upgraded_again ''T2'' =
     Some \<lparr> ed_protocolHolder = holder_of ''T2'' False 0,
            remoteStartParams = \<lparr> language = ''en'', port = Some 9229, break = None \<rparr>,
            extensionHost = Some 0, ed_disposed = False \<rparr>"
  "extensionHostProcess (extensionHosts exthost_upgraded_again 0) = Some 0"
  "pid (processes exthost_upgraded_again 0) = 4242"
  "killed (processes exthost_upgraded_again 0) = False"
  by (simp_all add: scenario_defs broker_defs)

subsection \<open>The claims about the broker\<close>

text \<open>
  Claim C8: for an upgrade request whose query has no \<open>reconnectionToken\<close>, or has it as
  an array, \<open>handle\<close> ends the socket with \<open>HTTP/1.1 400 Bad Request\<close> and creates neither
  a protocol holder (no protocol, no control-message listener) nor a session entry.  The
  upgrade has been done before the token is looked at, so the \<open>101\<close> response precedes
  the \<open>400\<close> on the socket.
\<close>

theorem C8_bad_token:
  assumes "query_reconnectionToken req = None
           \<or> query_reconnectionToken req = Some (Multiple vs)"
  shows "trace (handle hp req socket st) =
           trace st @ [SocketWrite socket (join CRLF (response_headers hp req @ [CRLF])),
                       SocketEnd socket (Some (''HTTP/1.1 400 Bad Request'' @ CRLF @ CRLF))]
         \<and> managementConnections (handle hp req socket st) = managementConnections st
         \<and> extensionHostConnections (handle hp req socket st) = extensionHostConnections st
         \<and> controlMessageListeners (handle hp req socket st) = controlMessageListeners st
         \<and> protocols (handle hp req socket st) = protocols st
         \<and> next_protocol (handle hp req socket st) = next_protocol st"
proof -
  from assms have tok: "single_token (query_reconnectionToken req) = None"
    by (auto simp: single_token_def)
  obtain r st1 where up: "upgradeSocket hp req socket st = (r, st1)"
    by (cases "upgradeSocket hp req socket st")
  obtain w d where r: "r = (w, d)" by (cases r)
  have st1: "st1 = snd (upgradeSocket hp req socket st)" using up by simp
  have h: "handle hp req socket st =
           emit (SocketEnd socket (Some (''HTTP/1.1 400 Bad Request'' @ CRLF @ CRLF))) st1"
    using up r tok by (simp add: handle_def)
  show ?thesis
    unfolding h st1 by (simp add: emit_def upgradeSocket_trace upgradeSocket_tables)
qed

theorem C8_bad_token_witness:
  "(query_reconnectionToken ((connect_request ''T1'' False)\<lparr> query_reconnectionToken := None \<rparr>) = None
    \<or> query_reconnectionToken ((connect_request ''T1'' False)\<lparr> query_reconnectionToken := None \<rparr>)
        = Some (Multiple []))
   \<and> trace (handle no_extensions
               ((connect_request ''T1'' False)\<lparr> query_reconnectionToken := None \<rparr>) 0 new_broker) =
       [SocketWrite 0 (join CRLF (response_headers no_extensions
           ((connect_request ''T1'' False)\<lparr> query_reconnectionToken := None \<rparr>) @ [CRLF])),
        SocketEnd 0 (Some (''HTTP/1.1 400 Bad Request'' @ CRLF @ CRLF))]
   \<and> controlMessageListeners (handle no_extensions
         ((connect_request ''T1'' False)\<lparr> query_reconnectionToken := None \<rparr>) 0 new_broker) = Map.empty
   \<and> next_protocol (handle no_extensions
         ((connect_request ''T1'' False)\<lparr> query_reconnectionToken := None \<rparr>) 0 new_broker) = 0"
proof -
  have h: "query_reconnectionToken ((connect_request ''T1'' False)\<lparr> query_reconnectionToken := None \<rparr>) = None
    \<or> query_reconnectionToken ((connect_request ''T1'' False)\<lparr> query_reconnectionToken := None \<rparr>)
        = Some (Multiple [])"
    by simp
  show ?thesis
    using h C8_bad_token [OF h, of no_extensions 0 new_broker] by (simp add: new_broker_def)
qed

text \<open>
  Claim C2: a \<open>connectionType\<close> request on a connection with \<open>reconnection=true\<close> whose
  token has no entry in the table of its connection type is aborted: the control message
  \<open>{reason, type: 'error'}\<close> is sent (for the management path with the reason
  \<open>Asking to reconnect but provided token is unknown\<close>), the persistent protocol is
  disposed, its socket is drained and disposed, and both tables stay as they were.
\<close>

theorem C2_unknown_token_aborts:
  assumes "reconnection holder"
    and "(desiredConnectionType r = Some Management
            \<and> managementConnections st (reconnectionToken holder) = None
            \<and> reason = ''Asking to reconnect but provided token is unknown'')
         \<or> (desiredConnectionType r = Some ExtensionHost
            \<and> extensionHostConnections st (reconnectionToken holder) = None
            \<and> reason = ''Reconnecting but no previous connection has been found. Aborting.'')"
  shows "handleConnectionTypeRequest env r holder socket st
           = Inr (abortWebSocketConnection holder reason st)
         \<and> trace (abortWebSocketConnection holder reason st) =
             trace st @ [SendControl (persistentProtocol holder)
                           (JObject [(''reason'', JString reason), (''type'', JString ''error'')]),
                         DisposeProtocol (persistentProtocol holder),
                         WsDrain (getSocket st (persistentProtocol holder)),
                         WsDispose (getSocket st (persistentProtocol holder))]
         \<and> p_disposed (protocols (abortWebSocketConnection holder reason st)
                          (persistentProtocol holder))
         \<and> managementConnections (abortWebSocketConnection holder reason st)
             = managementConnections st
         \<and> extensionHostConnections (abortWebSocketConnection holder reason st)
             = extensionHostConnections st"
proof -
  have "handleConnectionTypeRequest env r holder socket st
          = Inr (abortWebSocketConnection holder reason st)"
    using assms by (auto simp: handleConnectionTypeRequest_def Let_def isReconnecting_def)
  then show ?thesis by (simp add: abort_trace abort_state)
qed

theorem C2_unknown_token_aborts_witness:
  "reconnection (holder_of ''T99'' True 0)
   \<and> desiredConnectionType management_request = Some Management
   \<and> managementConnections unknown_upgraded (reconnectionToken (holder_of ''T99'' True 0)) = None
   \<and> handleConnectionTypeRequest env0 management_request (holder_of ''T99'' True 0) 0 unknown_upgraded
       = Inr (abortWebSocketConnection (holder_of ''T99'' True 0)
                ''Asking to reconnect but provided token is unknown'' unknown_upgraded)
   \<and> trace (abortWebSocketConnection (holder_of ''T99'' True 0)
                ''Asking to reconnect but provided token is unknown'' unknown_upgraded) =
       trace unknown_upgraded @
         [SendControl 0 (JObject [(''reason'', JString ''Asking to reconnect but provided token is unknown''),
                                  (''type'', JString ''error'')]),
          DisposeProtocol 0, WsDrain 0, WsDispose 0]
   \<and> managementConnections (abortWebSocketConnection (holder_of ''T99'' True 0)
                ''Asking to reconnect but provided token is unknown'' unknown_upgraded) = Map.empty
   \<and> desiredConnectionType extension_host_request = Some ExtensionHost
   \<and> extensionHostConnections unknown_upgraded (reconnectionToken (holder_of ''T99'' True 0)) = None
   \<and> handleConnectionTypeRequest env0 extension_host_request (holder_of ''T99'' True 0) 0
         unknown_upgraded
       = Inr (abortWebSocketConnection (holder_of ''T99'' True 0)
                ''Reconnecting but no previous connection has been found. Aborting.''
                unknown_upgraded)
   \<and> extensionHostConnections (abortWebSocketConnection (holder_of ''T99'' True 0)
                ''Reconnecting but no previous connection has been found. Aborting.''
                unknown_upgraded) = Map.empty"
proof -
  have r: "reconnection (holder_of ''T99'' True 0)" by (simp add: holder_of_def)
  have e: "managementConnections unknown_upgraded = Map.empty"
          "extensionHostConnections unknown_upgraded = Map.empty"
          "getSocket unknown_upgraded 0 = 0"
    by (simp_all add: scenario_defs broker_defs)
  have m: "(desiredConnectionType management_request = Some Management
            \<and> managementConnections unknown_upgraded (reconnectionToken (holder_of ''T99'' True 0)) = None
            \<and> ''Asking to reconnect but provided token is unknown''
                = ''Asking to reconnect but provided token is unknown'')
         \<or> (desiredConnectionType management_request = Some ExtensionHost
            \<and> extensionHostConnections unknown_upgraded (reconnectionToken (holder_of ''T99'' True 0)) = None
            \<and> ''Asking to reconnect but provided token is unknown''
                = ''Reconnecting but no previous connection has been found. Aborting.'')"
    by (simp add: e management_request_def)
  have x: "(desiredConnectionType extension_host_request = Some Management
            \<and> managementConnections unknown_upgraded (reconnectionToken (holder_of ''T99'' True 0)) = None
            \<and> ''Reconnecting but no previous connection has been found. Aborting.''
                = ''Asking to reconnect but provided token is unknown'')
         \<or> (desiredConnectionType extension_host_request = Some ExtensionHost
            \<and> extensionHostConnections unknown_upgraded (reconnectionToken (holder_of ''T99'' True 0)) = None
            \<and> ''Reconnecting but no previous connection has been found. Aborting.''
                = ''Reconnecting but no previous connection has been found. Aborting.'')"
    by (simp add: e extension_host_request_def)
  show ?thesis
    using r C2_unknown_token_aborts [OF r m, of env0 0] C2_unknown_token_aborts [OF r x, of env0 0] e
    by (simp add: holder_of_def management_request_def extension_host_request_def)
qed

text \<open>
  Claim C1 as written: on a management connect whose token is in the table, \<open>reconnect\<close>
  sends \<open>{type: 'ok'}\<close> on the old (stored) protocol.  It fails: in scenario 2 the stored
  protocol is 0 and the connecting one is 1; every \<open>ok\<close> of the request goes to protocol
  1, none to protocol 0.
\<close>

theorem C1_ok_on_old_protocol_counterexample:
  "managementConnections management_upgraded_again (reconnectionToken (holder_of ''T1'' True 1))
     = Some \<lparr> md_protocolHolder = holder_of ''T1'' False 0, md_disposed = False \<rparr>
   \<and> (case handleConnectionTypeRequest env0 management_request (holder_of ''T1'' True 1) 1
             management_upgraded_again of
         Inr st \<Rightarrow>
           trace st = trace management_upgraded_again @
             [SendControl 1 okMessage, BeginAcceptReconnection 0 1 [], EndAcceptReconnection 0,
              DisposeProtocol 1, SendControl 1 okMessage]
       | Inl e \<Rightarrow> False)
   \<and> SendControl (persistentProtocol (holder_of ''T1'' False 0)) okMessage
       \<notin> set [SendControl 1 okMessage, BeginAcceptReconnection 0 1 [], EndAcceptReconnection 0,
                DisposeProtocol 1, SendControl 1 okMessage]"
  by (simp add: scenario_defs broker_defs)

text \<open>
  Claim C1, amended: on a management connect whose reconnection token is already in the
  management table, the broker calls \<open>reconnect\<close> of the stored entry with the new
  protocol holder (and sends its usual \<open>ok\<close> on the new holder afterwards).  That
  \<open>reconnect\<close> sends \<open>{type: 'ok'}\<close> on the new protocol, makes the stored protocol accept
  the new protocol's socket together with the new protocol's drained buffer through
  \<open>beginAcceptReconnection\<close> and \<open>endAcceptReconnection\<close>, and disposes the new protocol;
  the table stays as it was.
\<close>

theorem C1_management_reconnect_amended:
  assumes "desiredConnectionType r = Some Management"
    and "managementConnections st (reconnectionToken holder) = Some this"
    and "persistentProtocol (md_protocolHolder this) \<noteq> persistentProtocol holder"
  shows "handleConnectionTypeRequest env r holder socket st
           = Inr (sendControlMessage holder okMessage (management_reconnect this holder st))
         \<and> trace (management_reconnect this holder st) =
             trace st @ [SendControl (persistentProtocol holder) okMessage,
                         BeginAcceptReconnection (persistentProtocol (md_protocolHolder this))
                           (getSocket st (persistentProtocol holder))
                           (p_incoming (protocols st (persistentProtocol holder))),
                         EndAcceptReconnection (persistentProtocol (md_protocolHolder this)),
                         DisposeProtocol (persistentProtocol holder)]
         \<and> getSocket (management_reconnect this holder st)
               (persistentProtocol (md_protocolHolder this))
             = getSocket st (persistentProtocol holder)
         \<and> p_disposed (protocols (management_reconnect this holder st) (persistentProtocol holder))
         \<and> managementConnections (management_reconnect this holder st) = managementConnections st"
proof -
  have "handleConnectionTypeRequest env r holder socket st
          = Inr (sendControlMessage holder okMessage (management_reconnect this holder st))"
    using assms(1,2) by (simp add: handleConnectionTypeRequest_def Let_def)
  moreover have "getSocket (management_reconnect this holder st)
               (persistentProtocol (md_protocolHolder this))
             = getSocket st (persistentProtocol holder)"
    using management_reconnect_state(3) [OF assms(3)] by (simp add: getSocket_def)
  ultimately show ?thesis
    by (simp add: management_reconnect_trace management_reconnect_state(1,2))
qed

theorem C1_management_reconnect_amended_witness:
  "desiredConnectionType management_request = Some Management
   \<and> managementConnections management_upgraded_again (reconnectionToken (holder_of ''T1'' True 1))
       = Some \<lparr> md_protocolHolder = holder_of ''T1'' False 0, md_disposed = False \<rparr>
   \<and> persistentProtocol (md_protocolHolder
         \<lparr> md_protocolHolder = holder_of ''T1'' False 0, md_disposed = False \<rparr>)
       \<noteq> persistentProtocol (holder_of ''T1'' True 1)
   \<and> handleConnectionTypeRequest env0 management_request (holder_of ''T1'' True 1) 1
         management_upgraded_again
       = Inr (sendControlMessage (holder_of ''T1'' True 1) okMessage
               (management_reconnect
                  \<lparr> md_protocolHolder = holder_of ''T1'' False 0, md_disposed = False \<rparr>
                  (holder_of ''T1'' True 1) management_upgraded_again))
   \<and> trace (management_reconnect
               \<lparr> md_protocolHolder = holder_of ''T1'' False 0, md_disposed = False \<rparr>
               (holder_of ''T1'' True 1) management_upgraded_again)
       = trace management_upgraded_again @
           [SendControl 1 okMessage, BeginAcceptReconnection 0 1 [], EndAcceptReconnection 0,
            DisposeProtocol 1]
   \<and> getSocket (management_reconnect
               \<lparr> md_protocolHolder = holder_of ''T1'' False 0, md_disposed = False \<rparr>
               (holder_of ''T1'' True 1) management_upgraded_again) 0 = 1"
proof -
  have a: "desiredConnectionType management_request = Some Management"
    by (simp add: management_request_def)
  have b: "managementConnections management_upgraded_again (reconnectionToken (holder_of ''T1'' True 1))
       = Some \<lparr> md_protocolHolder = holder_of ''T1'' False 0, md_disposed = False \<rparr>"
    using management_upgraded_again_facts(1) by (simp add: holder_of_def)
  have c: "persistentProtocol (md_protocolHolder
         \<lparr> md_protocolHolder = holder_of ''T1'' False 0, md_disposed = False \<rparr>)
       \<noteq> persistentProtocol (holder_of ''T1'' True 1)"
    by (simp add: holder_of_def)
  have g: "getSocket management_upgraded_again 1 = 1"
          "p_incoming (protocols management_upgraded_again 1) = []"
    by (rule management_upgraded_again_facts(3), rule management_upgraded_again_facts(4))
  show ?thesis
    using a b c C1_management_reconnect_amended [OF a b c, of env0 1] g
    by (simp add: holder_of_def)
qed


text \<open>
  Claim C3: for an extension-host session with a stored worker process, a
  \<open>connectionType\<close> request for its token calls \<open>reconnect\<close> on the existing extension
  host: no process is forked, the process of the extension host is the same afterwards,
  no child process changes (so the PID is the same and nothing is killed), and the socket
  is handed to that process.  Moreover no control message on any connection and no
  upgrade of a new socket kills a worker.
\<close>

theorem C3_reconnect_keeps_worker:
  assumes "desiredConnectionType r = Some ExtensionHost"
    and "extensionHostConnections st (reconnectionToken h) = Some details"
    and "extensionHost details = Some eh"
    and "extensionHostProcess (extensionHosts st eh) = Some p"
  shows "(\<exists>st'. handleConnectionTypeRequest env r h socket st = Inr st'
            \<and> extensionHostProcess (extensionHosts st' eh) = Some p
            \<and> processes st' = processes st
            \<and> next_process st' = next_process st
            \<and> extensionHostConnections st' = extensionHostConnections st
            \<and> trace st' = trace st @
                 [SendControl (persistentProtocol h)
                    (debugPort_message (port_or_0 (port (remoteStartParams details)))),
                  DisposeProtocol (persistentProtocol h),
                  SocketPause (eh_socket (extensionHosts st eh)),
                  WsDrain (webSocketNodeSocket h),
                  Send p (socket_message
                            (base64 (p_incoming (protocols st
                               (persistentProtocol (eh_protocolHolder (extensionHosts st eh))))))
                            (skipWebSocketFrames h) (permessageDeflate h)
                            (base64 (recordedInflateBytes (webSockets st (webSocketNodeSocket h)))))
                    socket])
         \<and> (\<forall>msg h' socket' st'. onControlMessage env h' socket' msg st = Inr st'
                \<longrightarrow> no_worker_killed st st')
         \<and> (\<forall>hp req socket'. no_worker_killed st (handle hp req socket' st))"
proof -
  have "handleConnectionTypeRequest env r h socket st
          = reconnect eh h socket (port_or_0 (port (remoteStartParams details))) st"
    using assms(1-3) by (simp add: handleConnectionTypeRequest_def Let_def)
  moreover from reconnect_stored [OF assms(4), of h socket
      "port_or_0 (port (remoteStartParams details))"]
  obtain st' where st': "reconnect eh h socket (port_or_0 (port (remoteStartParams details))) st = Inr st'"
     "trace st' = trace st @
               [SendControl (persistentProtocol h)
                  (debugPort_message (port_or_0 (port (remoteStartParams details)))),
                DisposeProtocol (persistentProtocol h),
                SocketPause (eh_socket (extensionHosts st eh)),
                WsDrain (webSocketNodeSocket h),
                Send p (socket_message
                          (base64 (p_incoming (protocols st
                             (persistentProtocol (eh_protocolHolder (extensionHosts st eh))))))
                          (skipWebSocketFrames h) (permessageDeflate h)
                          (base64 (recordedInflateBytes (webSockets st (webSocketNodeSocket h)))))
                  socket]"
     "extensionHosts st' = (extensionHosts st)
               (eh := (extensionHosts st eh)\<lparr> eh_protocolHolder := h \<rparr>)"
     "processes st' = processes st" "next_process st' = next_process st"
     "extensionHostConnections st' = extensionHostConnections st"
    by blast
  moreover have "extensionHostProcess (extensionHosts st' eh) = Some p"
    using st'(3) assms(4) by simp
  ultimately show ?thesis
    by (auto simp: control_message_no_kill handle_no_kill)
qed

theorem C3_reconnect_keeps_worker_witness:
  "desiredConnectionType extension_host_request = Some ExtensionHost
   \<and> extensionHostConnections exthost_upgraded_again (reconnectionToken (holder_of ''T2'' True 1))
       = Some \<lparr> ed_protocolHolder = holder_of ''T2'' False 0,
                remoteStartParams = \<lparr> language = ''en'', port = Some 9229, break = None \<rparr>,
                extensionHost = Some 0, ed_disposed = False \<rparr>
   \<and> extensionHostProcess (extensionHosts exthost_upgraded_again 0) = Some 0
   \<and> pid (processes exthost_upgraded_again 0) = 4242
   \<and> \<not> killed (processes exthost_upgraded_again 0)
   \<and> (case handleConnectionTypeRequest env0 extension_host_request (holder_of ''T2'' True 1) 1
             exthost_upgraded_again of
         Inr st' \<Rightarrow>
           extensionHostProcess (extensionHosts st' 0) = Some 0
           \<and> pid (processes st' 0) = 4242
           \<and> \<not> killed (processes st' 0)
           \<and> next_process st' = next_process exthost_upgraded_again
       | Inl e \<Rightarrow> False)"
proof -
  have a: "desiredConnectionType extension_host_request = Some ExtensionHost"
    by (simp add: extension_host_request_def)
  have b: "extensionHostConnections exthost_upgraded_again (reconnectionToken (holder_of ''T2'' True 1))
       = Some \<lparr> ed_protocolHolder = holder_of ''T2'' False 0,
                remoteStartParams = \<lparr> language = ''en'', port = Some 9229, break = None \<rparr>,
                extensionHost = Some 0, ed_disposed = False \<rparr>"
    using exthost_upgraded_again_facts(1) by (simp add: holder_of_def)
  have c: "extensionHost \<lparr> ed_protocolHolder = holder_of ''T2'' False 0,
                remoteStartParams = \<lparr> language = ''en'', port = Some 9229, break = None \<rparr>,
                extensionHost = Some 0, ed_disposed = False \<rparr> = Some 0"
    by simp
  have d: "extensionHostProcess (extensionHosts exthost_upgraded_again 0) = Some 0"
    by (rule exthost_upgraded_again_facts(2))
  show ?thesis
    using a b d exthost_upgraded_again_facts(3,4)
      C3_reconnect_keeps_worker [OF a b c d, of env0 1]
    by auto
qed

text \<open>
  Claim C4: \<open>start\<close> leaves the child process with the console listener and the listener
  that waits for \<open>VSCODE_EXTHOST_IPC_READY\<close>, which has captured the base64 encoding of the
  buffered bytes.  From a state with these two listeners, whatever messages the worker
  sends, \<open>VSCODE_EXTHOST_IPC_SOCKET\<close> is sent at most once: on the first ready message
  the listener removes itself, the websocket is drained and then the message is sent
  together with the socket, with \<open>inflateBytes\<close> the base64 encoding of the recorded
  inflate bytes; without a ready message nothing is sent.  In particular this holds for
  the messages that follow an invocation of \<open>start\<close>.
\<close>

theorem C4_handoff_once:
  assumes "message_listeners (processes st1 p) =
             [OnConsoleMessageListener eh, OnMessageReadyListener eh p chunk]"
  shows "message_listeners (processes (start env this startParams st) (next_process st)) =
           [OnConsoleMessageListener this,
            OnMessageReadyListener this (next_process st)
              (base64 (p_incoming (protocols st
                 (persistentProtocol (eh_protocolHolder (extensionHosts st this))))))]
         \<and> trace (on_messages p ms st1) =
             trace st1 @
             (if list_ex is_ready ms then
                [WsDrain (webSocketNodeSocket (eh_protocolHolder (extensionHosts st1 eh))),
                 Send p (socket_message chunk
                           (skipWebSocketFrames (eh_protocolHolder (extensionHosts st1 eh)))
                           (permessageDeflate (eh_protocolHolder (extensionHosts st1 eh)))
                           (base64 (recordedInflateBytes (webSockets st1
                              (webSocketNodeSocket (eh_protocolHolder (extensionHosts st1 eh)))))))
                   (eh_socket (extensionHosts st1 eh))]
              else [])
         \<and> message_listeners (processes (on_messages p ms st1) p) =
             (if list_ex is_ready ms then [OnConsoleMessageListener eh]
              else [OnConsoleMessageListener eh, OnMessageReadyListener eh p chunk])
         \<and> trace (on_messages (next_process st) ms (start env this startParams st)) =
             trace (start env this startParams st) @
             (if list_ex is_ready ms then
                [WsDrain (webSocketNodeSocket (eh_protocolHolder (extensionHosts st this))),
                 Send (next_process st)
                   (socket_message
                      (base64 (p_incoming (protocols st
                         (persistentProtocol (eh_protocolHolder (extensionHosts st this))))))
                      (skipWebSocketFrames (eh_protocolHolder (extensionHosts st this)))
                      (permessageDeflate (eh_protocolHolder (extensionHosts st this)))
                      (base64 (recordedInflateBytes (webSockets st
                         (webSocketNodeSocket (eh_protocolHolder (extensionHosts st this)))))))
                   (eh_socket (extensionHosts st this))]
              else [])"
proof -
  note l = start_listeners [of env this startParams st]
  have "trace (on_messages (next_process st) ms (start env this startParams st)) =
             trace (start env this startParams st) @
             (if list_ex is_ready ms then
                [WsDrain (webSocketNodeSocket (eh_protocolHolder (extensionHosts st this))),
                 Send (next_process st)
                   (socket_message
                      (base64 (p_incoming (protocols st
                         (persistentProtocol (eh_protocolHolder (extensionHosts st this))))))
                      (skipWebSocketFrames (eh_protocolHolder (extensionHosts st this)))
                      (permessageDeflate (eh_protocolHolder (extensionHosts st this)))
                      (base64 (recordedInflateBytes (webSockets st
                         (webSocketNodeSocket (eh_protocolHolder (extensionHosts st this)))))))
                   (eh_socket (extensionHosts st this))]
              else [])"
    using on_messages_waiting [OF l, of ms] by (simp add: start_frame(1,2))
  then show ?thesis
    using on_messages_waiting [OF assms, of ms] l by simp
qed

theorem C4_handoff_once_witness:
  "message_listeners (processes exthost_started 0) =
     [OnConsoleMessageListener 0, OnMessageReadyListener 0 0 []]
   \<and> list_ex is_ready [JObject [(''type'', JString ''__$console'')], ready_message, ready_message]
   \<and> trace (on_messages 0
               [JObject [(''type'', JString ''__$console'')], ready_message, ready_message]
               exthost_started) =
       trace exthost_started @ [WsDrain 0, Send 0 (socket_message [] False False []) 0]
   \<and> message_listeners (processes (on_messages 0
               [JObject [(''type'', JString ''__$console'')], ready_message, ready_message]
               exthost_started) 0) = [OnConsoleMessageListener 0]"
proof -
  have l: "message_listeners (processes exthost_started 0) =
     [OnConsoleMessageListener 0, OnMessageReadyListener 0 0 []]"
    by (simp add: scenario_defs broker_defs)
  have r: "list_ex is_ready [JObject [(''type'', JString ''__$console'')], ready_message, ready_message]"
    by (simp add: is_ready_def has_type_def ready_message_def)
  have f: "eh_protocolHolder (extensionHosts exthost_started 0) = holder_of ''T2'' False 0"
          "eh_socket (extensionHosts exthost_started 0) = 0"
          "recordedInflateBytes (webSockets exthost_started 0) = []"
    by (simp_all add: scenario_defs broker_defs)
  show ?thesis
    using l r f C4_handoff_once [OF l, of env0 0 "\<lparr> language = ''en'', port = None, break = None \<rparr>"
        new_broker "[JObject [(''type'', JString ''__$console'')], ready_message, ready_message]"]
    by (simp add: holder_of_def)
qed

end
